theory Spec2Isabelle
  imports Complex_Main
begin

section \<open>Python values\<close>

text \<open>
  The writer of \<^verbatim>\<open>psims/mzid/writer.py\<close> is dynamically typed. Its values are
  modelled by one datatype. A Python \<^verbatim>\<open>float\<close> is an IEEE 754 binary64 number:
  \<open>Finite s m e\<close> is \<open>m * 2 ^ e\<close>, negated when the sign bit \<open>s\<close> is set; the other values
  are the two infinities and NaN.
\<close>

datatype pyfloat = Finite bool nat int | Infinity bool | NaN

text \<open>
  The numbers are the instances of \<^verbatim>\<open>numbers.Number\<close> in the standard library:
  \<^verbatim>\<open>bool\<close>, \<^verbatim>\<open>int\<close>, \<^verbatim>\<open>float\<close>, \<^verbatim>\<open>complex\<close> (two floats), \<^verbatim>\<open>fractions.Fraction\<close>
  (\<open>VFraction n d\<close> is \<open>n / d\<close>, with \<open>0 < d\<close>) and \<^verbatim>\<open>decimal.Decimal\<close> (\<open>DFinite c k\<close> is
  the decimal \<open>c * 10 ^ k\<close>; the other decimals are the two infinities and NaN).
  \<open>VList\<close> stands for a list or a tuple. \<open>VAuto\<close> is the sentinel object
  \<^verbatim>\<open>AUTO\<close>. \<open>VSynth c n\<close> is the identifier synthesized for category \<open>c\<close> from
  the counter value \<open>n\<close>. \<open>VCall f args kwargs\<close> is the object returned by calling
  \<^verbatim>\<open>f(*args, **kwargs)\<close> for a class or factory \<open>f\<close> of the module
  \<^verbatim>\<open>psims/mzid/components.py\<close>. The writer only builds these objects, hands them on
  and writes them, so an object is identified with the call that built it.
\<close>

datatype pydecimal = DFinite int int | DInfinity bool | DNaN

datatype pyval =
    VNone
  | VAuto
  | VBool bool
  | VInt int
  | VFloat pyfloat
  | VComplex pyfloat pyfloat
  | VFraction int nat
  | VDecimal pydecimal
  | VStr string
  | VSynth string nat
  | VList "pyval list"
  | VDict "(string \<times> pyval) list"
  | VCall string "pyval list" "(string \<times> pyval) list"

datatype error =
    ValueError string
  | TypeError
  | OverflowError
  | InvalidOperation
  | AttributeError
  | ReferenceError

subsection \<open>Binary64 arithmetic\<close>

text \<open>
  All arithmetic is on integers. A rational magnitude \<open>a / b\<close> is rounded to the nearest
  double, ties to even: 53 bits of precision, least exponent \<open>-1074\<close>, overflow to
  infinity above the exponent \<open>971\<close>. The result is in canonical form: the mantissa is
  below \<open>2 ^ 53\<close>, and at least \<open>2 ^ 52\<close> unless the exponent is \<open>-1074\<close>.
\<close>

fun bitlength :: "nat \<Rightarrow> nat" where
  "bitlength n = (if n = 0 then 0 else Suc (bitlength (n div 2)))"

definition scale :: "nat \<Rightarrow> nat \<Rightarrow> int \<Rightarrow> nat \<times> nat" where
  \<comment> \<open>numerator and denominator of \<open>a / (b * 2 ^ e)\<close>\<close>
  "scale a b e = (if 0 \<le> e then (a, b * 2 ^ nat e) else (a * 2 ^ nat (- e), b))"

definition floor_log2 :: "nat \<Rightarrow> nat \<Rightarrow> int" where
  \<comment> \<open>for \<open>0 < a\<close> and \<open>0 < b\<close>: the \<open>k\<close> with \<open>2 ^ k \<le> a / b < 2 ^ (k + 1)\<close>\<close>
  "floor_log2 a b =
     (let k = int (bitlength a) - int (bitlength b);
          (n, d) = scale a b k
      in if d \<le> n then k else k - 1)"

definition round_half_even :: "nat \<Rightarrow> nat \<Rightarrow> nat" where
  \<comment> \<open>the integer nearest to \<open>n / d\<close>, the even one of two\<close>
  "round_half_even n d =
     (let q = n div d; r = n mod d
      in if 2 * r < d then q
         else if d < 2 * r then q + 1
         else if even q then q else q + 1)"

definition round_to_double :: "bool \<Rightarrow> nat \<Rightarrow> nat \<Rightarrow> pyfloat" where
  "round_to_double s a b =
     (if a = 0 then Finite s 0 (- 1074)
      else
        let e = max (floor_log2 a b - 52) (- 1074);
            (n, d) = scale a b e;
            m = round_half_even n d;
            (m', e') = (if m = 2 ^ 53 then (2 ^ 52, e + 1) else (m, e))
        in if 971 < e' then Infinity s else Finite s m' e')"

definition float_literal :: "nat \<Rightarrow> int \<Rightarrow> pyfloat" where
  \<comment> \<open>the float that the decimal literal \<^verbatim>\<open>d\<close>e\<^verbatim>\<open>k\<close> of the source denotes\<close>
  "float_literal d k =
     (if 0 \<le> k then round_to_double False (d * 10 ^ nat k) 1
      else round_to_double False d (10 ^ nat (- k)))"

definition signed :: "bool \<Rightarrow> int \<Rightarrow> int" where
  "signed s m = (if s then - m else m)"

definition finite_lt :: "bool \<Rightarrow> nat \<Rightarrow> int \<Rightarrow> bool \<Rightarrow> nat \<Rightarrow> int \<Rightarrow> bool" where
  \<comment> \<open>both values on the common exponent \<open>min e1 e2\<close>\<close>
  "finite_lt s m1 e1 t m2 e2 =
     (let e = min e1 e2
      in signed s (int m1 * 2 ^ nat (e1 - e)) < signed t (int m2 * 2 ^ nat (e2 - e)))"

fun float_lt :: "pyfloat \<Rightarrow> pyfloat \<Rightarrow> bool" where
  "float_lt NaN y = False"
| "float_lt x NaN = False"
| "float_lt (Infinity s) (Infinity t) = (s \<and> \<not> t)"
| "float_lt (Infinity s) (Finite t m2 e2) = s"
| "float_lt (Finite s m1 e1) (Infinity t) = (\<not> t)"
| "float_lt (Finite s m1 e1) (Finite t m2 e2) = finite_lt s m1 e1 t m2 e2"

definition finite_mul :: "bool \<Rightarrow> nat \<Rightarrow> int \<Rightarrow> pyfloat" where
  \<comment> \<open>the exact product \<open>m * 2 ^ e\<close>, rounded\<close>
  "finite_mul s m e =
     (if 0 \<le> e then round_to_double s (m * 2 ^ nat e) 1
      else round_to_double s m (2 ^ nat (- e)))"

fun float_mul :: "pyfloat \<Rightarrow> pyfloat \<Rightarrow> pyfloat" where
  "float_mul NaN y = NaN"
| "float_mul x NaN = NaN"
| "float_mul (Infinity s) (Infinity t) = Infinity (s \<noteq> t)"
| "float_mul (Infinity s) (Finite t m2 e2) = (if m2 = 0 then NaN else Infinity (s \<noteq> t))"
| "float_mul (Finite s m1 e1) (Infinity t) = (if m1 = 0 then NaN else Infinity (s \<noteq> t))"
| "float_mul (Finite s m1 e1) (Finite t m2 e2) = finite_mul (s \<noteq> t) (m1 * m2) (e1 + e2)"

definition float_of_int :: "int \<Rightarrow> error + pyfloat" where
  \<comment> \<open>the conversion that \<^verbatim>\<open>int * float\<close> applies to its left operand\<close>
  "float_of_int i =
     (case round_to_double (i < 0) (nat \<bar>i\<bar>) 1 of
        Infinity s \<Rightarrow> Inl OverflowError
      | x \<Rightarrow> Inr x)"

definition int_of_bool :: "bool \<Rightarrow> int" where
  "int_of_bool b = (if b then 1 else 0)"

fun is_Number :: "pyval \<Rightarrow> bool" where
  \<comment> \<open>\<^verbatim>\<open>isinstance(v, Number)\<close>: \<^verbatim>\<open>bool\<close> is a subclass of \<^verbatim>\<open>int\<close>\<close>
  "is_Number (VFloat x) = True"
| "is_Number (VInt i) = True"
| "is_Number (VBool b) = True"
| "is_Number (VComplex re im) = True"
| "is_Number (VFraction n d) = True"
| "is_Number (VDecimal x) = True"
| "is_Number v = False"

fun rational_lt :: "int \<Rightarrow> nat \<Rightarrow> pyfloat \<Rightarrow> bool" where
  \<comment> \<open>\<open>n / d < y\<close>, exactly, by cross multiplication\<close>
  "rational_lt n d NaN = False"
| "rational_lt n d (Infinity t) = (\<not> t)"
| "rational_lt n d (Finite t m e) =
     (if 0 \<le> e then n < signed t (int m) * 2 ^ nat e * int d
      else n * 2 ^ nat (- e) < signed t (int m) * int d)"

fun decimal_lt :: "pydecimal \<Rightarrow> pyfloat \<Rightarrow> error + bool" where
  \<comment> \<open>\<^verbatim>\<open>Decimal < float\<close> in the default context: the float is converted exactly, and a
      NaN on either side raises \<^verbatim>\<open>InvalidOperation\<close>\<close>
  "decimal_lt x NaN = Inl InvalidOperation"
| "decimal_lt DNaN y = Inl InvalidOperation"
| "decimal_lt (DInfinity s) (Infinity t) = Inr (s \<and> \<not> t)"
| "decimal_lt (DInfinity s) (Finite t m e) = Inr s"
| "decimal_lt (DFinite c k) y =
     Inr (if 0 \<le> k then rational_lt (c * 10 ^ nat k) 1 y else rational_lt c (10 ^ nat (- k)) y)"

fun number_lt :: "pyval \<Rightarrow> pyfloat \<Rightarrow> error + bool" where
  \<comment> \<open>\<^verbatim>\<open>v < y\<close> for a number \<open>v\<close> and a float \<open>y\<close>: Python compares an \<^verbatim>\<open>int\<close>, a
      \<^verbatim>\<open>Fraction\<close> and a \<^verbatim>\<open>Decimal\<close> with a float exactly, and raises \<^verbatim>\<open>TypeError\<close> for a
      \<^verbatim>\<open>complex\<close>\<close>
  "number_lt (VFloat x) y = Inr (float_lt x y)"
| "number_lt (VInt i) y = Inr (rational_lt i 1 y)"
| "number_lt (VBool b) y = Inr (rational_lt (int_of_bool b) 1 y)"
| "number_lt (VFraction n d) y = Inr (rational_lt n d y)"
| "number_lt (VDecimal x) y = decimal_lt x y"
| "number_lt v y = Inl TypeError"

definition float_of_rational :: "int \<Rightarrow> nat \<Rightarrow> error + pyfloat" where
  \<comment> \<open>the conversion to \<^verbatim>\<open>float\<close> that \<^verbatim>\<open>Fraction * float\<close> applies to its left operand:
      the correctly rounded quotient \<^verbatim>\<open>numerator / denominator\<close>\<close>
  "float_of_rational n d =
     (case round_to_double (n < 0) (nat \<bar>n\<bar>) d of
        Infinity s \<Rightarrow> Inl OverflowError
      | x \<Rightarrow> Inr x)"

fun number_mul :: "pyval \<Rightarrow> pyfloat \<Rightarrow> error + pyfloat" where
  \<comment> \<open>\<^verbatim>\<open>v * y\<close> for a float \<open>y\<close> and a number \<open>v\<close> that \<^verbatim>\<open><\<close> accepts: \<^verbatim>\<open>Decimal * float\<close>
      raises \<^verbatim>\<open>TypeError\<close>\<close>
  "number_mul (VFloat x) y = Inr (float_mul x y)"
| "number_mul (VInt i) y =
     (case float_of_int i of Inl e \<Rightarrow> Inl e | Inr x \<Rightarrow> Inr (float_mul x y))"
| "number_mul (VBool b) y =
     (case float_of_int (int_of_bool b) of Inl e \<Rightarrow> Inl e | Inr x \<Rightarrow> Inr (float_mul x y))"
| "number_mul (VFraction n d) y =
     (case float_of_rational n d of Inl e \<Rightarrow> Inl e | Inr x \<Rightarrow> Inr (float_mul x y))"
| "number_mul v y = Inl TypeError"

definition float_1e_4 :: pyfloat where
  "float_1e_4 = float_literal 1 (- 4)"

definition float_1e6 :: pyfloat where
  "float_1e6 = float_literal 1 6"

subsection \<open>Truth values and \<^verbatim>\<open>int()\<close>\<close>

fun float_nonzero :: "pyfloat \<Rightarrow> bool" where
  "float_nonzero (Finite s m e) = (m \<noteq> 0)"
| "float_nonzero x = True"

fun truthy :: "pyval \<Rightarrow> bool" where
  \<comment> \<open>the truth value Python gives an object in \<^verbatim>\<open>if v:\<close> and \<^verbatim>\<open>v or w\<close>; an object of
      a class without \<^verbatim>\<open>__bool__\<close> and \<^verbatim>\<open>__len__\<close> is true\<close>
  "truthy VNone = False"
| "truthy VAuto = True"
| "truthy (VBool b) = b"
| "truthy (VInt i) = (i \<noteq> 0)"
| "truthy (VFloat (Finite s m e)) = (m \<noteq> 0)"
| "truthy (VFloat x) = True"
| "truthy (VComplex re im) = (float_nonzero re \<or> float_nonzero im)"
| "truthy (VFraction n d) = (n \<noteq> 0)"
| "truthy (VDecimal (DFinite c k)) = (c \<noteq> 0)"
| "truthy (VDecimal x) = True"
| "truthy (VStr s) = (s \<noteq> [])"
| "truthy (VSynth c n) = True"
| "truthy (VList xs) = (xs \<noteq> [])"
| "truthy (VDict kvs) = (kvs \<noteq> [])"
| "truthy (VCall f args kwargs) = True"

definition or_empty_dict :: "pyval \<Rightarrow> pyval" where
  \<comment> \<open>\<^verbatim>\<open>o or {}\<close>\<close>
  "or_empty_dict v = (if truthy v then v else VDict [])"

definition is_space :: "char \<Rightarrow> bool" where
  "is_space c = (c \<in> {CHR '' '', CHR 0x09, CHR 0x0A, CHR 0x0B, CHR 0x0C, CHR 0x0D})"

definition is_digit :: "char \<Rightarrow> bool" where
  "is_digit c = (48 \<le> (of_char c :: nat) \<and> (of_char c :: nat) \<le> 57)"

fun digits_value :: "nat \<Rightarrow> bool \<Rightarrow> string \<Rightarrow> nat option" where
  \<comment> \<open>decimal digits, single underscores between them; the flag says that the last
      character read was a digit\<close>
  "digits_value acc after_digit [] = (if after_digit then Some acc else None)"
| "digits_value acc after_digit (c # cs) =
     (if is_digit c then digits_value (acc * 10 + (of_char c - 48)) True cs
      else if c = CHR ''_'' \<and> after_digit then digits_value acc False cs
      else None)"

definition int_of_string :: "string \<Rightarrow> error + int" where
  \<comment> \<open>\<^verbatim>\<open>int(s)\<close> in base ten on an ASCII string: surrounding white space, a sign, digits\<close>
  "int_of_string s =
     (let t = rev (dropWhile is_space (rev (dropWhile is_space s)));
          (neg, ds) = (case t of
                         c # cs \<Rightarrow> if c = CHR ''-'' then (True, cs)
                                   else if c = CHR ''+'' then (False, cs)
                                   else (False, t)
                       | [] \<Rightarrow> (False, t))
      in case digits_value 0 False ds of
           None \<Rightarrow> Inl (ValueError ''invalid literal for int() with base 10'')
         | Some n \<Rightarrow> Inr (if neg then - int n else int n))"

fun py_int :: "pyval \<Rightarrow> error + int" where
  \<comment> \<open>the builtin \<^verbatim>\<open>int(v)\<close>; a float is truncated towards zero\<close>
  "py_int (VInt i) = Inr i"
| "py_int (VBool b) = Inr (int_of_bool b)"
| "py_int (VFloat (Finite s m e)) =
     Inr (signed s (if 0 \<le> e then int m * 2 ^ nat e else int m div 2 ^ nat (- e)))"
| "py_int (VFloat (Infinity s)) = Inl OverflowError"
| "py_int (VFloat NaN) = Inl (ValueError ''cannot convert float NaN to integer'')"
| "py_int (VFraction n d) = Inr (signed (n < 0) (\<bar>n\<bar> div int d))"
| "py_int (VDecimal (DFinite c k)) =
     Inr (if 0 \<le> k then c * 10 ^ nat k else signed (c < 0) (\<bar>c\<bar> div 10 ^ nat (- k)))"
| "py_int (VDecimal (DInfinity s)) = Inl OverflowError"
| "py_int (VDecimal DNaN) = Inl (ValueError ''cannot convert NaN to integer'')"
| "py_int (VStr s) = int_of_string s"
| "py_int v = Inl TypeError"

section \<open>The collaborators of the writer\<close>

text \<open>
  \<^verbatim>\<open>writer.py\<close> imports its component classes, the helper \<^verbatim>\<open>ensure_iterable\<close> and the
  XML primitives from other modules (\<^verbatim>\<open>.components\<close>, \<^verbatim>\<open>.utils\<close>, \<^verbatim>\<open>psims.xml\<close>). What
  the writer takes from them is passed to every function of the model as one record
  \<open>M\<close>, so each theorem holds for every implementation of them:
  \<^item> \<open>DEFAULT_ORGANIZATION_ID\<close> and \<open>xmlns\<close>: the constants of these names;
  \<^item> \<open>ensure_iterable\<close>: the sequence an argument is normalised to;
  \<^item> \<open>ensure c raw\<close>: the result of \<^verbatim>\<open>self.c.ensure(raw)\<close> for a component class \<open>c\<close>;
  \<^item> \<open>prepare_params\<close>: the list of parameter objects made of the raw \<^verbatim>\<open>params\<close> argument;
  \<^item> \<open>accession\<close> and \<open>component_id\<close>: the attributes \<^verbatim>\<open>.accession\<close> of a parameter and
    \<^verbatim>\<open>.id\<close> of a component;
  \<^item> \<open>element_id\<close>: the attribute \<^verbatim>\<open>.id\<close> of the element that \<^verbatim>\<open>_element(tag, **attrs)\<close> builds.
\<close>

record element =
  tag_name :: string
  attrs :: "string \<rightharpoonup> pyval"

record components =
  DEFAULT_ORGANIZATION_ID :: pyval
  xmlns :: pyval
  ensure_iterable :: "pyval \<Rightarrow> pyval list"
  ensure :: "string \<Rightarrow> pyval \<Rightarrow> pyval"
  prepare_params :: "pyval \<Rightarrow> pyval list"
  accession :: "pyval \<Rightarrow> pyval"
  component_id :: "pyval \<Rightarrow> pyval"
  element_id :: "element \<Rightarrow> pyval"

text \<open>
  The output stream is the sequence of calls made on the incremental XML writer: an
  element opened (with or without its \<^verbatim>\<open>id\<close> attribute), an element closed, a flush,
  and an object serialising itself (\<^verbatim>\<open>x.write(writer)\<close>, or \<^verbatim>\<open>param(writer)\<close> for a
  parameter). These primitives belong to the XML library and always succeed here.
\<close>

datatype event =
    OpenElement element bool
  | CloseElement element
  | Flush
  | Write pyval

text \<open>
  The state of one document: the stream, the identity map \<^verbatim>\<open>self.context\<close> (category,
  then key), the per-category counters of the registry, and the warnings issued.
\<close>

record document =
  stream :: "event list"
  doc_context :: "string \<Rightarrow> pyval \<rightharpoonup> pyval"
  counter :: "string \<Rightarrow> nat"
  warnings :: "string list"

definition new_document :: document where
  "new_document =
     \<lparr>stream = [], doc_context = (\<lambda>c. Map.empty), counter = (\<lambda>c. 0), warnings = []\<rparr>"

definition emit :: "event \<Rightarrow> document \<Rightarrow> document" where
  "emit ev st = st\<lparr>stream := stream st @ [ev]\<rparr>"

definition write_object :: "pyval \<Rightarrow> document \<Rightarrow> document" where
  \<comment> \<open>\<^verbatim>\<open>x.write(self.writer)\<close>\<close>
  "write_object x st = emit (Write x) st"

definition flush :: "document \<Rightarrow> document" where
  \<comment> \<open>\<^verbatim>\<open>self.writer.flush()\<close>\<close>
  "flush st = emit Flush st"

definition warn :: "string \<Rightarrow> document \<Rightarrow> document" where
  \<comment> \<open>\<^verbatim>\<open>warnings.warn(msg)\<close>: the warning is issued and execution goes on\<close>
  "warn msg st = st\<lparr>warnings := warnings st @ [msg]\<rparr>"

definition dict_pop :: "(string \<rightharpoonup> pyval) \<Rightarrow> string \<Rightarrow> pyval \<Rightarrow> pyval \<times> (string \<rightharpoonup> pyval)" where
  \<comment> \<open>\<^verbatim>\<open>d.pop(k, default)\<close>: the value and the dictionary left\<close>
  "dict_pop d k dflt = (case d k of None \<Rightarrow> (dflt, d) | Some v \<Rightarrow> (v, d(k := None)))"

section \<open>The identity registry\<close>

text \<open>
  Modelled from the spec: \<^verbatim>\<open>register\<close> and \<^verbatim>\<open>resolve\<close> of the identity registry
  (section 4.1). The writer inherits \<^verbatim>\<open>self.register\<close> from \<^verbatim>\<open>ComponentDispatcher\<close> of
  the module \<^verbatim>\<open>.components\<close>, which \<^verbatim>\<open>writer.py\<close> does not contain. In the spec's
  words: if the key is already mapped under the category, the existing identifier is
  returned; otherwise, if the key is the auto-generation sentinel, a new identifier is
  synthesized from a per-category counter that only grows, stored and returned;
  otherwise the key itself is stored as the identifier. A synthesized identifier is
  stored under itself, so that a later reference by it resolves; the sentinel is never
  a stored key.
\<close>

definition store :: "string \<Rightarrow> pyval \<Rightarrow> pyval \<Rightarrow> document \<Rightarrow> document" where
  \<comment> \<open>\<^verbatim>\<open>context[category][key] = value\<close>\<close>
  "store category key v st =
     st\<lparr>doc_context := (doc_context st)(category := (doc_context st category)(key \<mapsto> v))\<rparr>"

definition register :: "string \<Rightarrow> pyval \<Rightarrow> document \<Rightarrow> pyval \<times> document" where
  \<comment> \<open>Modelled from the spec: \<^verbatim>\<open>register(category, key) -> id\<close> of section 4.1\<close>
  "register category key st =
     (case doc_context st category key of
        Some existing \<Rightarrow> (existing, st)
      | None \<Rightarrow>
          if key = VAuto then
            let new = VSynth category (counter st category);
                st1 = st\<lparr>counter := (counter st)(category := Suc (counter st category))\<rparr>
            in (new, store category new new st1)
          else (key, store category key key st))"

definition resolve :: "string \<Rightarrow> pyval \<Rightarrow> document \<Rightarrow> error + pyval" where
  \<comment> \<open>Modelled from the spec: \<^verbatim>\<open>resolve(category, key) -> id\<close> of section 4.1\<close>
  "resolve category key st =
     (case doc_context st category key of
        None \<Rightarrow> Inl ReferenceError
      | Some i \<Rightarrow> Inr i)"

definition assigned :: "document \<Rightarrow> string \<Rightarrow> pyval set" where
  \<comment> \<open>the identifiers assigned so far within a category\<close>
  "assigned st category = ran (doc_context st category)"

definition counter_ahead :: "document \<Rightarrow> string \<Rightarrow> bool" where
  \<comment> \<open>the invariant of the counter: it is beyond every identifier synthesized so far
      in the category, and the sentinel is not a stored key\<close>
  "counter_ahead st category =
     (doc_context st category VAuto = None \<and>
      (\<forall>n. VSynth category n \<in> dom (doc_context st category) \<union> assigned st category
            \<longrightarrow> n < counter st category))"

section \<open>Document sections\<close>

text \<open>
  \<^verbatim>\<open>class DocumentSection\<close>. The attributes \<^verbatim>\<open>self.writer\<close> and \<^verbatim>\<open>self.context\<close> are
  references to the writer's stream and identity map: they are the \<open>document\<close> state
  that every method takes and returns. \<open>context_manager\<close> holds the element whose
  context manager \<^verbatim>\<open>self.toplevel.begin(...)\<close> returned.
\<close>

record document_section =
  section_name :: string
  section_args :: "string \<rightharpoonup> pyval"
  params :: "pyval list"
  toplevel :: "element option"
  context_manager :: "element option"

definition DocumentSection_init ::
  "components \<Rightarrow> string \<Rightarrow> (string \<rightharpoonup> pyval) option \<Rightarrow> (string \<rightharpoonup> pyval) \<Rightarrow> document_section" where
  \<comment> \<open>\<^verbatim>\<open>DocumentSection.__init__(section, writer, parent_context, section_args, **kwargs)\<close>\<close>
  "DocumentSection_init M section sargs kwargs =
     (let args0 = (case sargs of None \<Rightarrow> Map.empty | Some a \<Rightarrow> a);
          args1 = args0 ++ kwargs;
          (raw, args2) = dict_pop args1 ''params'' (VList [])
      in \<lparr>section_name = section, section_args = args2, params = prepare_params M raw,
          toplevel = None, context_manager = None\<rparr>)"

definition create_element ::
  "components \<Rightarrow> 'a document_section_scheme \<Rightarrow> document
     \<Rightarrow> 'a document_section_scheme \<times> document" where
  \<comment> \<open>\<^verbatim>\<open>DocumentSection._create_element\<close>\<close>
  "create_element M sec st =
     (case toplevel sec of
        None \<Rightarrow>
          let el = \<lparr>tag_name = section_name sec, attrs = section_args sec\<rparr>;
              st1 = (case section_args sec ''id'' of
                       Some i \<Rightarrow> store (section_name sec) (element_id M el) i st
                     | None \<Rightarrow> st)
          in (sec\<lparr>toplevel := Some el\<rparr>, st1)
      | Some el \<Rightarrow> (sec, st))"

fun write_params :: "pyval list \<Rightarrow> document \<Rightarrow> document" where
  \<comment> \<open>\<^verbatim>\<open>for param in self.params: param(self.writer)\<close>\<close>
  "write_params [] st = st"
| "write_params (p # ps) st = write_params ps (write_object p st)"

definition DocumentSection_enter ::
  "components \<Rightarrow> 'a document_section_scheme \<Rightarrow> document
     \<Rightarrow> 'a document_section_scheme \<times> document" where
  \<comment> \<open>\<^verbatim>\<open>DocumentSection.__enter__\<close>; after \<open>create_element\<close> the attribute \<^verbatim>\<open>toplevel\<close> is
      set, so the first branch is never taken\<close>
  "DocumentSection_enter M sec st =
     (let (sec1, st1) = create_element M sec st;
          with_id = (''id'' \<in> dom (section_args sec1))
      in case toplevel sec1 of
           None \<Rightarrow> (sec1, st1)
         | Some el \<Rightarrow>
             let sec2 = sec1\<lparr>context_manager := Some el\<rparr>;
                 st2 = emit (OpenElement el with_id) st1
             in (sec2, write_params (params sec2) st2))"

definition DocumentSection_exit ::
  "'a document_section_scheme \<Rightarrow> document \<Rightarrow> (error + unit) \<times> document" where
  \<comment> \<open>\<^verbatim>\<open>DocumentSection.__exit__\<close>: it returns \<^verbatim>\<open>None\<close>, so an exception of the body is
      not swallowed. Before \<^verbatim>\<open>__enter__\<close> the attribute \<^verbatim>\<open>_context_manager\<close> is
      \<^verbatim>\<open>None\<close> and the call on it raises.\<close>
  "DocumentSection_exit sec st =
     (case context_manager sec of
        None \<Rightarrow> (Inl AttributeError, st)
      | Some el \<Rightarrow> (Inr (), flush (emit (CloseElement el) st)))"

definition with_statement ::
  "('s \<Rightarrow> document \<Rightarrow> 's \<times> document) \<Rightarrow> ('s \<Rightarrow> document \<Rightarrow> (error + unit) \<times> document)
     \<Rightarrow> 's \<Rightarrow> (document \<Rightarrow> (error + unit) \<times> document) \<Rightarrow> document
     \<Rightarrow> (error + unit) \<times> document" where
  \<comment> \<open>Python's \<^verbatim>\<open>with sec: body\<close> for a context manager whose \<^verbatim>\<open>__exit__\<close> returns
      \<^verbatim>\<open>None\<close>: \<^verbatim>\<open>__exit__\<close> runs when the body returns and when it raises; the body's
      exception is raised again afterwards, unless \<^verbatim>\<open>__exit__\<close> raised itself\<close>
  "with_statement enter exit sec body st =
     (let (sec1, st1) = enter sec st;
          (r, st2) = body st1;
          (x, st3) = exit sec1 st2
      in (case x of Inl e \<Rightarrow> Inl e | Inr u \<Rightarrow> r, st3))"

definition with_new ::
  "('s \<Rightarrow> document \<Rightarrow> 's \<times> document) \<Rightarrow> ('s \<Rightarrow> document \<Rightarrow> (error + unit) \<times> document)
     \<Rightarrow> (error + 's) \<times> document \<Rightarrow> (document \<Rightarrow> (error + unit) \<times> document)
     \<Rightarrow> (error + unit) \<times> document" where
  \<comment> \<open>\<^verbatim>\<open>with f.section(...): body\<close>: when the constructor raises, the statement is left
      before \<^verbatim>\<open>__enter__\<close>\<close>
  "with_new enter exit made body =
     (case made of
        (Inl e, st) \<Rightarrow> (Inl e, st)
      | (Inr sec, st) \<Rightarrow> with_statement enter exit sec body st)"

text \<open>The sections that only fix a tag and the namespace.\<close>

definition InputsSection :: "components \<Rightarrow> document_section" where
  "InputsSection M = DocumentSection_init M ''Inputs'' None [''xmlns'' \<mapsto> xmlns M]"

definition AnalysisProtocolCollectionSection :: "components \<Rightarrow> document_section" where
  "AnalysisProtocolCollectionSection M =
     DocumentSection_init M ''AnalysisProtocolCollection'' None [''xmlns'' \<mapsto> xmlns M]"

definition AnalysisSampleCollectionSection :: "components \<Rightarrow> document_section" where
  "AnalysisSampleCollectionSection M =
     DocumentSection_init M ''AnalysisSampleCollection'' None [''xmlns'' \<mapsto> xmlns M]"

definition SequenceCollectionSection :: "components \<Rightarrow> document_section" where
  "SequenceCollectionSection M =
     DocumentSection_init M ''SequenceCollection'' None [''xmlns'' \<mapsto> xmlns M]"

definition AnalysisCollectionSection :: "components \<Rightarrow> document_section" where
  "AnalysisCollectionSection M =
     DocumentSection_init M ''AnalysisCollection'' None [''xmlns'' \<mapsto> xmlns M]"

definition DataCollectionSection :: "components \<Rightarrow> document_section" where
  "DataCollectionSection M =
     DocumentSection_init M ''DataCollection'' None [''xmlns'' \<mapsto> xmlns M]"

definition AnalysisDataSection :: "components \<Rightarrow> document_section" where
  "AnalysisDataSection M =
     DocumentSection_init M ''AnalysisData'' None [''xmlns'' \<mapsto> xmlns M]"

subsection \<open>The spectrum identification list\<close>

record spectrum_identification_list_section = document_section +
  fragmentation_table :: pyval

definition SpectrumIdentficationListSection_init ::
  "components \<Rightarrow> (string \<rightharpoonup> pyval) option \<Rightarrow> (string \<rightharpoonup> pyval)
     \<Rightarrow> spectrum_identification_list_section" where
  "SpectrumIdentficationListSection_init M sargs kwargs =
     (let sec = DocumentSection_init M ''SpectrumIdentificationList'' sargs kwargs;
          (table, args1) = dict_pop (section_args sec) ''fragmentation_table'' VNone
      in \<lparr>section_name = section_name sec, section_args = args1, params = params sec,
          toplevel = toplevel sec, context_manager = context_manager sec,
          fragmentation_table = table\<rparr>)"

definition SpectrumIdentficationListSection_enter ::
  "components \<Rightarrow> spectrum_identification_list_section \<Rightarrow> document
     \<Rightarrow> spectrum_identification_list_section \<times> document" where
  "SpectrumIdentficationListSection_enter M sec st =
     (let (sec1, st1) = DocumentSection_enter M sec st
      in if truthy (fragmentation_table sec1)
         then (sec1, write_object (fragmentation_table sec1) st1)
         else (sec1, st1))"

definition spectrum_identification_list ::
  "components \<Rightarrow> pyval \<Rightarrow> pyval \<Rightarrow> spectrum_identification_list_section" where
  \<comment> \<open>\<^verbatim>\<open>MzIdentMLWriter.spectrum_identification_list(id, measures=None)\<close>\<close>
  "spectrum_identification_list M i measures0 =
     (let measures1 = (if measures0 = VNone then VCall ''FragmentationTable'' [] [] else measures0)
      in SpectrumIdentficationListSection_init M None
           [''id'' \<mapsto> i, ''fragmentation_table'' \<mapsto> measures1])"

subsection \<open>The protein detection list\<close>

definition dq :: string where
  \<comment> \<open>the double quote inside the two messages\<close>
  "dq = [CHR 0x22]"

definition count_missing_message :: string where
  "count_missing_message =
     ''MS:1002404 '' @ dq @ ''count of identified proteins'' @ dq @ '' is missing.''
     @ ''Provide it as either a section parameter or as the '' @ dq @ ''count'' @ dq
     @ '' keyword argument''"

definition count_conflict_message :: string where
  "count_conflict_message =
     ''MS:1002404 '' @ dq @ ''count of identified proteins'' @ dq @ '' was supplied both ''
     @ ''as a parameter and as a keyword argument.''"

definition has_count_param :: "components \<Rightarrow> pyval list \<Rightarrow> bool" where
  \<comment> \<open>\<^verbatim>\<open>any(param.accession == 'MS:1002404' for param in self.params)\<close>\<close>
  "has_count_param M ps = list_ex (\<lambda>p. accession M p = VStr ''MS:1002404'') ps"

definition ProteinDetectionListSection_init ::
  "components \<Rightarrow> (string \<rightharpoonup> pyval) option \<Rightarrow> (string \<rightharpoonup> pyval) \<Rightarrow> document
     \<Rightarrow> (error + document_section) \<times> document" where
  "ProteinDetectionListSection_init M sargs kwargs st =
     (let sec = DocumentSection_init M ''ProteinDetectionList'' sargs kwargs;
          (count, args1) = dict_pop (section_args sec) ''count'' VNone;
          sec1 = sec\<lparr>section_args := args1\<rparr>;
          has = has_count_param M (params sec1);
          st1 = (if count = VNone \<and> \<not> has then warn count_missing_message st else st)
      in if count \<noteq> VNone \<and> has then (Inl (ValueError count_conflict_message), st1)
         else if count \<noteq> VNone then
           (case py_int count of
              Inl e \<Rightarrow> (Inl e, st1)
            | Inr n \<Rightarrow>
                (Inr (sec1\<lparr>params := params sec1 @
                        [VCall ''param'' []
                           [(''name'', VStr ''count of identified proteins''),
                            (''value'', VInt n)]]\<rparr>), st1))
         else (Inr sec1, st1))"

definition protein_detection_list ::
  "components \<Rightarrow> pyval \<Rightarrow> pyval \<Rightarrow> pyval \<Rightarrow> (string \<rightharpoonup> pyval) \<Rightarrow> document
     \<Rightarrow> (error + document_section) \<times> document" where
  \<comment> \<open>\<^verbatim>\<open>MzIdentMLWriter.protein_detection_list(id, count=None, params=None, **kwargs)\<close>\<close>
  "protein_detection_list M i count ps kwargs st =
     ProteinDetectionListSection_init M None
       (kwargs(''id'' \<mapsto> i, ''count'' \<mapsto> count, ''params'' \<mapsto> ps)) st"

section \<open>The writer\<close>

definition providence :: "components \<Rightarrow> pyval \<Rightarrow> pyval \<Rightarrow> pyval \<Rightarrow> document \<Rightarrow> document" where
  \<comment> \<open>\<^verbatim>\<open>MzIdentMLWriter.providence(software, owner, organization)\<close>; its fourth
      parameter \<^verbatim>\<open>provider\<close> is never read\<close>
  "providence M software owner organization st =
     (let organization1 =
            map (\<lambda>x. ensure M ''Organization'' (or_empty_dict x)) (ensure_iterable M organization);
          owner1 = map (\<lambda>x. ensure M ''Person'' (or_empty_dict x)) (ensure_iterable M owner);
          software1 =
            map (\<lambda>s. ensure M ''AnalysisSoftware'' (or_empty_dict s)) (ensure_iterable M software);
          (owner2, organization2, st1) =
            (if owner1 = [] \<and> organization1 = [] then
               let affiliation = DEFAULT_ORGANIZATION_ID M;
                   (registered, st') = register ''Organization'' affiliation st
               in ([VCall ''Person'' [] [(''affiliation'', affiliation)]],
                   [VCall ''Organization'' [] [(''id'', affiliation)]], st')
             else (owner1, organization1, st));
          st2 = write_object
                  (VCall ''GenericCollection'' [VStr ''AnalysisSoftwareList'', VList software1] [])
                  st1;
          owner_id = (case owner2 of first # others \<Rightarrow> component_id M first | [] \<Rightarrow> VNone);
          st3 = write_object (VCall ''Provider'' [] [(''contact'', owner_id)]) st2
      in write_object (VCall ''AuditCollection'' [VList owner2, VList organization2] []) st3)"

definition tolerance :: "string \<Rightarrow> pyval \<Rightarrow> error + pyval" where
  \<comment> \<open>the two \<^verbatim>\<open>if isinstance(..., (list, tuple)) ... elif isinstance(..., Number)\<close>
      statements of \<^verbatim>\<open>spectrum_identification_protocol\<close>, which differ in the class only\<close>
  "tolerance cls t =
     (case t of
        VList xs \<Rightarrow> Inr (VCall cls xs [])
      | _ \<Rightarrow>
          if is_Number t then
            (case number_lt t float_1e_4 of
               Inl e \<Rightarrow> Inl e
             | Inr below \<Rightarrow>
                 if below then
                   (case number_mul t float_1e6 of
                      Inl e \<Rightarrow> Inl e
                    | Inr p \<Rightarrow> Inr (VCall cls [VFloat p, VNone, VStr ''parts per million''] []))
                 else Inr (VCall cls [t, VNone, VStr ''dalton''] []))
          else Inr t)"

definition spectrum_identification_protocol ::
  "components \<Rightarrow> pyval \<Rightarrow> pyval \<Rightarrow> pyval \<Rightarrow> pyval \<Rightarrow> pyval \<Rightarrow> pyval \<Rightarrow> pyval \<Rightarrow> pyval \<Rightarrow> pyval
     \<Rightarrow> document \<Rightarrow> (error + unit) \<times> document" where
  "spectrum_identification_protocol M search_type analysis_software_id i
       additional_search_params enzymes modification_params
       fragment_tolerance parent_tolerance threshold st =
     (let enzymes1 = map (\<lambda>s. ensure M ''Enzyme'' (or_empty_dict s)) (ensure_iterable M enzymes);
          modification_params1 =
            map (\<lambda>s. ensure M ''SearchModification'' (or_empty_dict s))
              (ensure_iterable M modification_params)
      in case tolerance ''FragmentTolerance'' fragment_tolerance of
           Inl e \<Rightarrow> (Inl e, st)
         | Inr fragment_tolerance1 \<Rightarrow>
             (case tolerance ''ParentTolerance'' parent_tolerance of
                Inl e \<Rightarrow> (Inl e, st)
              | Inr parent_tolerance1 \<Rightarrow>
                  let threshold1 = VCall ''Threshold'' [threshold] [];
                      protocol = VCall ''SpectrumIdentificationProtocol''
                        [search_type, analysis_software_id, i, additional_search_params,
                         VList modification_params1, VList enzymes1, fragment_tolerance1,
                         parent_tolerance1, threshold1] []
                  in (Inr (), write_object protocol st)))"

section \<open>A sample implementation of the collaborators\<close>

text \<open>
  The theorems below hold for every record \<open>M\<close>. To apply them to concrete inputs, this
  sample reads the attributes of an object from the keyword arguments it was built
  with, builds a component from a dictionary of its fields, and takes \<^verbatim>\<open>None\<close> for the
  empty sequence.
\<close>

definition keyword_of :: "string \<Rightarrow> pyval \<Rightarrow> pyval" where
  "keyword_of k v =
     (case v of
        VCall f args kwargs \<Rightarrow> (case map_of kwargs k of Some x \<Rightarrow> x | None \<Rightarrow> VNone)
      | _ \<Rightarrow> VNone)"

definition sequence_of :: "pyval \<Rightarrow> pyval list" where
  "sequence_of v = (case v of VNone \<Rightarrow> [] | VList xs \<Rightarrow> xs | _ \<Rightarrow> [v])"

definition sample_components :: components where
  "sample_components =
     \<lparr>DEFAULT_ORGANIZATION_ID = VStr ''ORG_DOC_OWNER'',
      xmlns = VStr ''http://psidev.info/psi/pi/mzIdentML/1.1'',
      ensure_iterable = sequence_of,
      ensure = (\<lambda>c raw. case raw of VDict kvs \<Rightarrow> VCall c [] kvs | _ \<Rightarrow> raw),
      prepare_params = sequence_of,
      accession = keyword_of ''accession'',
      component_id = keyword_of ''id'',
      element_id = (\<lambda>el. case attrs el ''id'' of Some i \<Rightarrow> i | None \<Rightarrow> VNone)\<rparr>"

definition count_param :: pyval where
  \<comment> \<open>a parameter that carries the protein count\<close>
  "count_param =
     VCall ''CVParam'' []
       [(''accession'', VStr ''MS:1002404''), (''name'', VStr ''count of identified proteins''),
        (''value'', VInt 10)]"

definition failing_body :: "document \<Rightarrow> (error + unit) \<times> document" where
  \<comment> \<open>a body of a \<^verbatim>\<open>with\<close> statement that writes one child and then raises\<close>
  "failing_body st = (Inl TypeError, write_object (VStr ''child'') st)"

definition sample_section :: document_section where
  \<comment> \<open>a section built with an identifier and two queued parameters\<close>
  "sample_section =
     DocumentSection_init sample_components ''AnalysisData'' None
       [''id'' \<mapsto> VInt 1, ''params'' \<mapsto> VList [VStr ''p1'', VStr ''p2'']]"

section \<open>The tolerance unit\<close>

text \<open>The constants of the source and the examples of the specification, evaluated.\<close>

lemmas float_eval = float_1e_4_def float_1e6_def float_literal_def round_to_double_def
  floor_log2_def scale_def round_half_even_def finite_mul_def finite_lt_def signed_def Let_def

lemma float_1e_4_value: "float_1e_4 = Finite False 7378697629483821 (- 66)"
  by (simp add: float_eval)

lemma float_1e6_value: "float_1e6 = Finite False 8589934592000000 (- 33)"
  by (simp add: float_eval)

lemma float_5e_6_value: "float_literal 5 (- 6) = Finite False 5902958103587057 (- 70)"
  by (simp add: float_eval)

lemma float_2e_2_value: "float_literal 2 (- 2) = Finite False 5764607523034235 (- 58)"
  by (simp add: float_eval)

lemma float_5e_6_lt: "float_lt (Finite False 5902958103587057 (- 70)) float_1e_4"
  by (simp add: float_eval)

lemma float_5e_6_ppm:
  "float_mul (Finite False 5902958103587057 (- 70)) float_1e6 = Finite False 5629499534213120 (- 50)"
  by (simp add: float_eval)

lemma float_2e_2_not_lt: "\<not> float_lt (Finite False 5764607523034235 (- 58)) float_1e_4"
  by (simp add: float_eval)

lemma float_1e_4_not_lt: "\<not> float_lt float_1e_4 float_1e_4"
  by (simp add: float_eval)

lemma float_below_1e_4_lt: "float_lt (Finite False 7378697629483820 (- 66)) float_1e_4"
  by (simp add: float_eval)

lemma float_below_1e_4_ppm:
  "float_mul (Finite False 7378697629483820 (- 66)) float_1e6
     = Finite False 7036874417766399 (- 46)"
  by (simp add: float_eval)

lemma minus_three_ppm:
  "round_to_double True 3 1 = Finite True 6755399441055744 (- 51)"
  "float_mul (Finite True 6755399441055744 (- 51)) float_1e6 = Finite True 6442450944000000 (- 31)"
  by (simp_all add: float_eval)

lemma ten_thousandth_ppm:
  "round_to_double False 1 10000 = Finite False 7378697629483821 (- 66)"
  "float_mul (Finite False 7378697629483821 (- 66)) float_1e6 = Finite False 7036874417766400 (- 46)"
  by (simp_all add: float_eval)

lemma int_below_threshold: "rational_lt i (Suc 0) float_1e_4 = (\<not> 0 < i)"
  by (simp add: float_1e_4_value signed_def) arith

lemma bool_below_threshold: "rational_lt (int_of_bool b) (Suc 0) float_1e_4 = (\<not> b)"
  by (cases b) (simp_all add: int_of_bool_def float_1e_4_value signed_def)

lemma fraction_below_threshold:
  "rational_lt n d float_1e_4 = (n * 2 ^ 66 < 7378697629483821 * int d)"
  by (simp add: float_1e_4_value signed_def)

lemma zero_times: "float_mul (Finite False 0 (- 1074)) float_1e6 = Finite False 0 (- 1074)"
  by (simp add: float_eval)

lemma tolerance_number:
  assumes "is_Number v"
  shows "tolerance cls v =
     (case number_lt v float_1e_4 of
        Inl e \<Rightarrow> Inl e
      | Inr below \<Rightarrow>
          if below then
            (case number_mul v float_1e6 of
               Inl e \<Rightarrow> Inl e
             | Inr p \<Rightarrow> Inr (VCall cls [VFloat p, VNone, VStr ''parts per million''] []))
          else Inr (VCall cls [v, VNone, VStr ''dalton''] []))"
  using assms by (cases v) (auto simp: tolerance_def)

lemma protocol_written:
  assumes "tolerance ''FragmentTolerance'' ft = Inr a" and "tolerance ''ParentTolerance'' pt = Inr b"
  shows "spectrum_identification_protocol M search_type software i extra enzymes mods ft pt thr st =
        (Inr (),
         write_object
           (VCall ''SpectrumIdentificationProtocol''
              [search_type, software, i, extra,
               VList (map (\<lambda>s. ensure M ''SearchModification'' (or_empty_dict s))
                        (ensure_iterable M mods)),
               VList (map (\<lambda>s. ensure M ''Enzyme'' (or_empty_dict s))
                        (ensure_iterable M enzymes)),
               a, b, VCall ''Threshold'' [thr] []] [])
           st)"
  using assms by (simp add: spectrum_identification_protocol_def)

lemma protocol_raises:
  assumes "tolerance ''FragmentTolerance'' ft = Inl e
           \<or> (\<exists>a. tolerance ''FragmentTolerance'' ft = Inr a) \<and> tolerance ''ParentTolerance'' pt = Inl e"
  shows "spectrum_identification_protocol M search_type software i extra enzymes mods ft pt thr st =
        (Inl e, st)"
  using assms by (auto simp: spectrum_identification_protocol_def)

lemma huge_int_overflows: "round_to_double True (2 ^ 1024) 1 = Infinity True"
  by (simp add: round_to_double_def floor_log2_def scale_def round_half_even_def Let_def)

lemma huge_int_raises: "tolerance cls (VInt (- (2 ^ 1024))) = Inl OverflowError"
proof -
  have "number_lt (VInt (- (2 ^ 1024))) float_1e_4 = Inr True"
    by (simp add: int_below_threshold)
  moreover have "number_mul (VInt (- (2 ^ 1024))) float_1e6 = Inl OverflowError"
    using huge_int_overflows by (simp add: float_of_int_def)
  ultimately show ?thesis
    by (simp add: tolerance_number del: number_lt.simps number_mul.simps)
qed

text \<open>
  Claim C1, as it is written, speaks of every bare numeric tolerance. It fails for a
  \<^verbatim>\<open>Decimal\<close> below the threshold: \<^verbatim>\<open>Decimal('0.00001')\<close> is an instance of \<^verbatim>\<open>Number\<close>
  and compares below \<^verbatim>\<open>1e-4\<close>, but \<^verbatim>\<open>Decimal * float\<close> raises \<^verbatim>\<open>TypeError\<close>, so no
  tolerance is built and nothing is written. It fails as well for an \<^verbatim>\<open>int\<close> beyond the
  range of the floats: \<^verbatim>\<open>-(2 ** 1024)\<close> is below the threshold and its product with
  \<^verbatim>\<open>1e6\<close> raises \<^verbatim>\<open>OverflowError\<close>.
\<close>

theorem tolerance_unit_policy_counterexample:
  "is_Number (VDecimal (DFinite 1 (- 5)))
   \<and> number_lt (VDecimal (DFinite 1 (- 5))) float_1e_4 = Inr True
   \<and> tolerance ''FragmentTolerance'' (VDecimal (DFinite 1 (- 5))) = Inl TypeError
   \<and> spectrum_identification_protocol sample_components (VStr ''ms-ms search'') (VInt 1) (VInt 1)
        VNone VNone VNone (VDecimal (DFinite 1 (- 5))) VNone VNone new_document
      = (Inl TypeError, new_document)
   \<and> tolerance ''FragmentTolerance'' (VInt (- (2 ^ 1024))) = Inl OverflowError"
proof -
  have below: "number_lt (VDecimal (DFinite 1 (- 5))) float_1e_4 = Inr True"
    by (simp add: float_1e_4_value signed_def)
  have raised: "tolerance ''FragmentTolerance'' (VDecimal (DFinite 1 (- 5))) = Inl TypeError"
    using below by (simp add: tolerance_number del: number_lt.simps)
  have "spectrum_identification_protocol sample_components (VStr ''ms-ms search'') (VInt 1) (VInt 1)
        VNone VNone VNone (VDecimal (DFinite 1 (- 5))) VNone VNone new_document
      = (Inl TypeError, new_document)"
    using raised by (simp add: spectrum_identification_protocol_def)
  with below raised huge_int_raises [of "''FragmentTolerance''"] show ?thesis by simp
qed

text \<open>
  Claim C1, amended. A bare number given as \<^verbatim>\<open>fragment_tolerance\<close> or
  \<^verbatim>\<open>parent_tolerance\<close> is treated by its type.
  \<^item> A \<^verbatim>\<open>float\<close> strictly below \<^verbatim>\<open>1e-4\<close> becomes a tolerance in parts per million whose
    value is the float multiplied by \<^verbatim>\<open>1e6\<close>; any other float (\<^verbatim>\<open>1e-4\<close> itself, NaN)
    becomes a tolerance in dalton with the float unchanged.
  \<^item> An \<^verbatim>\<open>int\<close> above zero, and \<^verbatim>\<open>True\<close>, become a tolerance in dalton, unchanged. An
    \<^verbatim>\<open>int\<close> at or below zero is converted to the nearest float and multiplied by
    \<^verbatim>\<open>1e6\<close>, in parts per million; where the conversion overflows, \<^verbatim>\<open>OverflowError\<close> is
    raised. \<^verbatim>\<open>False\<close> gives \<^verbatim>\<open>0.0\<close> parts per million.
  \<^item> A \<^verbatim>\<open>Fraction\<close> \<open>n / d\<close> is compared exactly with the double \<^verbatim>\<open>1e-4\<close>, which is
    \<open>7378697629483821 / 2 ^ 66\<close>: below it, the fraction is converted to the nearest
    float and multiplied, in parts per million, or \<^verbatim>\<open>OverflowError\<close> is raised;
    otherwise it is a tolerance in dalton, unchanged.
  \<^item> A \<^verbatim>\<open>Decimal\<close> is compared exactly as well: at or above the threshold it is a
    tolerance in dalton, unchanged; below it \<^verbatim>\<open>TypeError\<close> is raised; for the decimal
    NaN the comparison raises \<^verbatim>\<open>InvalidOperation\<close>.
  \<^item> A \<^verbatim>\<open>complex\<close> raises \<^verbatim>\<open>TypeError\<close> in the comparison.
  The last two conjuncts are about \<^verbatim>\<open>spectrum_identification_protocol\<close>: the two
  tolerances are the seventh and eighth argument of the protocol it writes, and when
  one of them raises, the same error is raised and nothing is written.
\<close>

theorem tolerance_unit_policy:
  "(float_lt x float_1e_4 \<longrightarrow>
      tolerance cls (VFloat x) =
        Inr (VCall cls [VFloat (float_mul x float_1e6), VNone, VStr ''parts per million''] []))
   \<and> (\<not> float_lt x float_1e_4 \<longrightarrow>
      tolerance cls (VFloat x) = Inr (VCall cls [VFloat x, VNone, VStr ''dalton''] []))
   \<and> tolerance cls (VInt j) =
       (if 0 < j then Inr (VCall cls [VInt j, VNone, VStr ''dalton''] [])
        else case round_to_double (j < 0) (nat \<bar>j\<bar>) 1 of
               Infinity s \<Rightarrow> Inl OverflowError
             | y \<Rightarrow> Inr (VCall cls [VFloat (float_mul y float_1e6), VNone,
                                     VStr ''parts per million''] []))
   \<and> tolerance cls (VBool t) =
       (if t then Inr (VCall cls [VBool True, VNone, VStr ''dalton''] [])
        else Inr (VCall cls [VFloat (Finite False 0 (- 1074)), VNone,
                             VStr ''parts per million''] []))
   \<and> tolerance cls (VFraction n d) =
       (if n * 2 ^ 66 < 7378697629483821 * int d then
          case round_to_double (n < 0) (nat \<bar>n\<bar>) d of
            Infinity s \<Rightarrow> Inl OverflowError
          | y \<Rightarrow> Inr (VCall cls [VFloat (float_mul y float_1e6), VNone,
                                  VStr ''parts per million''] [])
        else Inr (VCall cls [VFraction n d, VNone, VStr ''dalton''] []))
   \<and> tolerance cls (VDecimal (DFinite c k)) =
       (if (if 0 \<le> k then c * 10 ^ nat k * 2 ^ 66 < 7378697629483821
            else c * 2 ^ 66 < 7378697629483821 * 10 ^ nat (- k))
        then Inl TypeError
        else Inr (VCall cls [VDecimal (DFinite c k), VNone, VStr ''dalton''] []))
   \<and> tolerance cls (VDecimal (DInfinity u)) =
       (if u then Inl TypeError
        else Inr (VCall cls [VDecimal (DInfinity False), VNone, VStr ''dalton''] []))
   \<and> tolerance cls (VDecimal DNaN) = Inl InvalidOperation
   \<and> tolerance cls (VComplex re im) = Inl TypeError
   \<and> (tolerance ''FragmentTolerance'' ft = Inr a \<and> tolerance ''ParentTolerance'' pt = Inr b \<longrightarrow>
      spectrum_identification_protocol M search_type software i extra enzymes mods ft pt thr st =
        (Inr (),
         write_object
           (VCall ''SpectrumIdentificationProtocol''
              [search_type, software, i, extra,
               VList (map (\<lambda>s. ensure M ''SearchModification'' (or_empty_dict s))
                        (ensure_iterable M mods)),
               VList (map (\<lambda>s. ensure M ''Enzyme'' (or_empty_dict s))
                        (ensure_iterable M enzymes)),
               a, b, VCall ''Threshold'' [thr] []] [])
           st))
   \<and> (tolerance ''FragmentTolerance'' ft = Inl e
        \<or> (\<exists>a. tolerance ''FragmentTolerance'' ft = Inr a) \<and> tolerance ''ParentTolerance'' pt = Inl e
       \<longrightarrow>
      spectrum_identification_protocol M search_type software i extra enzymes mods ft pt thr st =
        (Inl e, st))"
proof (intro conjI)
  show "float_lt x float_1e_4 \<longrightarrow>
      tolerance cls (VFloat x) =
        Inr (VCall cls [VFloat (float_mul x float_1e6), VNone, VStr ''parts per million''] [])"
    by (simp add: tolerance_number)
  show "\<not> float_lt x float_1e_4 \<longrightarrow>
      tolerance cls (VFloat x) = Inr (VCall cls [VFloat x, VNone, VStr ''dalton''] [])"
    by (simp add: tolerance_number)
  show "tolerance cls (VInt j) =
       (if 0 < j then Inr (VCall cls [VInt j, VNone, VStr ''dalton''] [])
        else case round_to_double (j < 0) (nat \<bar>j\<bar>) 1 of
               Infinity s \<Rightarrow> Inl OverflowError
             | y \<Rightarrow> Inr (VCall cls [VFloat (float_mul y float_1e6), VNone,
                                     VStr ''parts per million''] []))"
  proof (cases "0 < j")
    case True
    then show ?thesis by (simp add: tolerance_number int_below_threshold)
  next
    case False
    then have "tolerance cls (VInt j) =
        (case float_of_int j of
           Inl e \<Rightarrow> Inl e
         | Inr p \<Rightarrow> Inr (VCall cls [VFloat (float_mul p float_1e6), VNone,
                                  VStr ''parts per million''] []))"
      by (simp add: tolerance_number int_below_threshold split: sum.split)
    also have "\<dots> =
        (case round_to_double (j < 0) (nat \<bar>j\<bar>) 1 of
               Infinity s \<Rightarrow> Inl OverflowError
             | y \<Rightarrow> Inr (VCall cls [VFloat (float_mul y float_1e6), VNone,
                                     VStr ''parts per million''] []))"
      by (simp add: float_of_int_def split: pyfloat.split)
    finally show ?thesis using False by simp
  qed
  show "tolerance cls (VBool t) =
       (if t then Inr (VCall cls [VBool True, VNone, VStr ''dalton''] [])
        else Inr (VCall cls [VFloat (Finite False 0 (- 1074)), VNone,
                             VStr ''parts per million''] []))"
  proof (cases t)
    case True
    have "number_lt (VBool True) float_1e_4 = Inr False"
      by (simp add: int_of_bool_def int_below_threshold)
    then show ?thesis
      using True by (simp add: tolerance_number del: number_lt.simps)
  next
    case False
    have below: "number_lt (VBool False) float_1e_4 = Inr True"
      by (simp add: int_of_bool_def int_below_threshold)
    have product: "number_mul (VBool False) float_1e6 = Inr (Finite False 0 (- 1074))"
      by (simp add: int_of_bool_def float_of_int_def round_to_double_def zero_times)
    show ?thesis
      using False below product
      by (simp add: tolerance_number del: number_lt.simps number_mul.simps)
  qed
  show "tolerance cls (VFraction n d) =
       (if n * 2 ^ 66 < 7378697629483821 * int d then
          case round_to_double (n < 0) (nat \<bar>n\<bar>) d of
            Infinity s \<Rightarrow> Inl OverflowError
          | y \<Rightarrow> Inr (VCall cls [VFloat (float_mul y float_1e6), VNone,
                                  VStr ''parts per million''] [])
        else Inr (VCall cls [VFraction n d, VNone, VStr ''dalton''] []))"
  proof (cases "n * 2 ^ 66 < 7378697629483821 * int d")
    case False
    then show ?thesis by (simp add: tolerance_number fraction_below_threshold)
  next
    case True
    then have "tolerance cls (VFraction n d) =
        (case float_of_rational n d of
           Inl e \<Rightarrow> Inl e
         | Inr p \<Rightarrow> Inr (VCall cls [VFloat (float_mul p float_1e6), VNone,
                                  VStr ''parts per million''] []))"
      by (simp add: tolerance_number fraction_below_threshold split: sum.split)
    also have "\<dots> =
        (case round_to_double (n < 0) (nat \<bar>n\<bar>) d of
            Infinity s \<Rightarrow> Inl OverflowError
          | y \<Rightarrow> Inr (VCall cls [VFloat (float_mul y float_1e6), VNone,
                                  VStr ''parts per million''] []))"
      by (simp add: float_of_rational_def split: pyfloat.split)
    finally show ?thesis using True by simp
  qed
  show "tolerance cls (VDecimal (DFinite c k)) =
       (if (if 0 \<le> k then c * 10 ^ nat k * 2 ^ 66 < 7378697629483821
            else c * 2 ^ 66 < 7378697629483821 * 10 ^ nat (- k))
        then Inl TypeError
        else Inr (VCall cls [VDecimal (DFinite c k), VNone, VStr ''dalton''] []))"
    by (simp add: tolerance_number float_1e_4_value signed_def)
  show "tolerance cls (VDecimal (DInfinity u)) =
       (if u then Inl TypeError
        else Inr (VCall cls [VDecimal (DInfinity False), VNone, VStr ''dalton''] []))"
    by (simp add: tolerance_number float_1e_4_value)
  show "tolerance cls (VDecimal DNaN) = Inl InvalidOperation"
    by (simp add: tolerance_number float_1e_4_value)
  show "tolerance cls (VComplex re im) = Inl TypeError"
    by (simp add: tolerance_number)
  show "tolerance ''FragmentTolerance'' ft = Inr a \<and> tolerance ''ParentTolerance'' pt = Inr b \<longrightarrow>
      spectrum_identification_protocol M search_type software i extra enzymes mods ft pt thr st =
        (Inr (),
         write_object
           (VCall ''SpectrumIdentificationProtocol''
              [search_type, software, i, extra,
               VList (map (\<lambda>s. ensure M ''SearchModification'' (or_empty_dict s))
                        (ensure_iterable M mods)),
               VList (map (\<lambda>s. ensure M ''Enzyme'' (or_empty_dict s))
                        (ensure_iterable M enzymes)),
               a, b, VCall ''Threshold'' [thr] []] [])
           st)"
    by (simp add: protocol_written)
  show "tolerance ''FragmentTolerance'' ft = Inl e
        \<or> (\<exists>a. tolerance ''FragmentTolerance'' ft = Inr a) \<and> tolerance ''ParentTolerance'' pt = Inl e
       \<longrightarrow>
      spectrum_identification_protocol M search_type software i extra enzymes mods ft pt thr st =
        (Inl e, st)"
    using protocol_raises by blast
qed

text \<open>
  The examples of the specification and the two sides of the threshold: \<^verbatim>\<open>5e-6\<close> gives
  \<^verbatim>\<open>5.0\<close> parts per million, \<^verbatim>\<open>0.02\<close> gives \<^verbatim>\<open>0.02\<close> dalton, \<^verbatim>\<open>1e-4\<close> itself gives
  dalton, and the double just below it gives \<^verbatim>\<open>99.99999999999999\<close> parts per million.
  Further, \<^verbatim>\<open>-3\<close> gives \<^verbatim>\<open>-3000000.0\<close> parts per million, \<^verbatim>\<open>1\<close> gives \<^verbatim>\<open>1\<close> dalton,
  \<^verbatim>\<open>Fraction(1, 10000)\<close> gives \<^verbatim>\<open>100.0\<close> parts per million and \<^verbatim>\<open>Decimal('0.02')\<close> gives
  dalton.
\<close>

theorem tolerance_unit_policy_witness:
  "tolerance ''FragmentTolerance'' (VFloat (float_literal 5 (- 6))) =
     Inr (VCall ''FragmentTolerance''
            [VFloat (Finite False 5629499534213120 (- 50)), VNone, VStr ''parts per million''] [])
   \<and> tolerance ''FragmentTolerance'' (VFloat (float_literal 2 (- 2))) =
     Inr (VCall ''FragmentTolerance'' [VFloat (float_literal 2 (- 2)), VNone, VStr ''dalton''] [])
   \<and> tolerance ''ParentTolerance'' (VFloat float_1e_4) =
     Inr (VCall ''ParentTolerance'' [VFloat float_1e_4, VNone, VStr ''dalton''] [])
   \<and> tolerance ''ParentTolerance'' (VFloat (Finite False 7378697629483820 (- 66))) =
     Inr (VCall ''ParentTolerance''
            [VFloat (Finite False 7036874417766399 (- 46)), VNone, VStr ''parts per million''] [])
   \<and> tolerance ''FragmentTolerance'' (VInt (- 3)) =
     Inr (VCall ''FragmentTolerance''
            [VFloat (Finite True 6442450944000000 (- 31)), VNone, VStr ''parts per million''] [])
   \<and> tolerance ''FragmentTolerance'' (VInt 1) =
     Inr (VCall ''FragmentTolerance'' [VInt 1, VNone, VStr ''dalton''] [])
   \<and> tolerance ''FragmentTolerance'' (VFraction 1 10000) =
     Inr (VCall ''FragmentTolerance''
            [VFloat (Finite False 7036874417766400 (- 46)), VNone, VStr ''parts per million''] [])
   \<and> tolerance ''FragmentTolerance'' (VDecimal (DFinite 2 (- 2))) =
     Inr (VCall ''FragmentTolerance'' [VDecimal (DFinite 2 (- 2)), VNone, VStr ''dalton''] [])"
  using tolerance_unit_policy [where x = "float_literal 5 (- 6)" and cls = "''FragmentTolerance''"
      and j = "- 3" and n = 1 and d = 10000 and c = 2 and k = "- 2"]
    tolerance_unit_policy [where x = "float_literal 2 (- 2)" and cls = "''FragmentTolerance''"
      and j = 1]
    tolerance_unit_policy [where x = "float_1e_4" and cls = "''ParentTolerance''"]
    tolerance_unit_policy [where x = "Finite False 7378697629483820 (- 66)"
      and cls = "''ParentTolerance''"]
    float_5e_6_lt float_5e_6_ppm float_2e_2_not_lt float_1e_4_not_lt
    float_below_1e_4_lt float_below_1e_4_ppm minus_three_ppm ten_thousandth_ppm
  by (simp add: float_5e_6_value float_2e_2_value)

section \<open>Entering and leaving a section\<close>

lemma write_params_stream: "write_params ps st = st\<lparr>stream := stream st @ map Write ps\<rparr>"
  by (induction ps arbitrary: st) (simp_all add: write_object_def emit_def)

lemma create_element_fresh:
  "toplevel sec = None \<Longrightarrow>
   create_element M sec st =
     (sec\<lparr>toplevel := Some \<lparr>tag_name = section_name sec, attrs = section_args sec\<rparr>\<rparr>,
      case section_args sec ''id'' of
        Some i \<Rightarrow> store (section_name sec)
                    (element_id M \<lparr>tag_name = section_name sec, attrs = section_args sec\<rparr>) i st
      | None \<Rightarrow> st)"
  by (simp add: create_element_def Let_def)

lemma create_element_present: "toplevel sec = Some el \<Longrightarrow> create_element M sec st = (sec, st)"
  by (simp add: create_element_def)

lemma create_element_sets_toplevel: "toplevel (fst (create_element M sec st)) \<noteq> None"
  by (cases "toplevel sec") (simp_all add: create_element_def Let_def)

lemma enter_fresh:
  assumes "toplevel sec = None"
  shows "DocumentSection_enter M sec st =
     (sec\<lparr>toplevel := Some \<lparr>tag_name = section_name sec, attrs = section_args sec\<rparr>,
          context_manager := Some \<lparr>tag_name = section_name sec, attrs = section_args sec\<rparr>\<rparr>,
      (case section_args sec ''id'' of
         Some i \<Rightarrow> store (section_name sec)
                     (element_id M \<lparr>tag_name = section_name sec, attrs = section_args sec\<rparr>) i st
       | None \<Rightarrow> st)
      \<lparr>stream := stream st @
          OpenElement \<lparr>tag_name = section_name sec, attrs = section_args sec\<rparr>
            (''id'' \<in> dom (section_args sec))
          # map Write (params sec)\<rparr>)"
  using assms
  by (simp add: DocumentSection_enter_def create_element_fresh write_params_stream emit_def
      store_def split: option.split)

lemma init_toplevel: "toplevel (DocumentSection_init M tag sargs kwargs) = None"
  by (simp add: DocumentSection_init_def Let_def split: prod.split)

lemma enter_sets_toplevel: "toplevel (fst (DocumentSection_enter M sec st)) \<noteq> None"
  using create_element_sets_toplevel [of M sec st]
  by (auto simp: DocumentSection_enter_def Let_def split: prod.split option.split)

lemma new_document_fields:
  "stream new_document = []" "doc_context new_document c = Map.empty"
  "counter new_document c = 0" "warnings new_document = []"
  by (simp_all add: new_document_def)

lemma sample_section_made:
  "sample_section =
     \<lparr>section_name = ''AnalysisData'', section_args = [''id'' \<mapsto> VInt 1],
      params = [VStr ''p1'', VStr ''p2''], toplevel = None, context_manager = None\<rparr>"
  by (auto simp: sample_section_def DocumentSection_init_def dict_pop_def sample_components_def
      sequence_of_def)

text \<open>
  Claim C7. Entering a section that has not been entered before opens its container
  element on the stream, with its \<^verbatim>\<open>id\<close> attribute exactly when the section was given
  an \<^verbatim>\<open>id\<close> argument, and then writes every queued parameter, in order, before
  anything else; this is the stream when \<^verbatim>\<open>__enter__\<close> returns to the caller. When
  the section has an \<^verbatim>\<open>id\<close> argument, the identity map of the section's category
  gets the entry \<^verbatim>\<open>context[section][el.id] = section_args['id']\<close>; otherwise it is
  unchanged.
\<close>

theorem enter_opens_then_writes_params:
  assumes "toplevel sec = None"
    and "el = \<lparr>tag_name = section_name sec, attrs = section_args sec\<rparr>"
    and "r = DocumentSection_enter M sec st"
  shows "stream (snd r) =
           stream st @ [OpenElement el (''id'' \<in> dom (section_args sec))] @ map Write (params sec)
         \<and> toplevel (fst r) = Some el \<and> context_manager (fst r) = Some el
         \<and> (\<forall>i. section_args sec ''id'' = Some i \<longrightarrow>
               doc_context (snd r) =
                 (doc_context st)(section_name sec :=
                    (doc_context st (section_name sec))(element_id M el \<mapsto> i)))
         \<and> (section_args sec ''id'' = None \<longrightarrow> doc_context (snd r) = doc_context st)
         \<and> counter (snd r) = counter st \<and> warnings (snd r) = warnings st"
  using assms by (simp add: enter_fresh store_def split: option.split)


theorem enter_opens_then_writes_params_witness:
  "stream (snd (DocumentSection_enter sample_components sample_section new_document)) =
     [OpenElement \<lparr>tag_name = ''AnalysisData'', attrs = [''id'' \<mapsto> VInt 1]\<rparr> True,
      Write (VStr ''p1''), Write (VStr ''p2'')]
   \<and> doc_context (snd (DocumentSection_enter sample_components sample_section new_document))
        ''AnalysisData'' (VInt 1) = Some (VInt 1)"
proof -
  have fresh: "toplevel sample_section = None" by (simp add: sample_section_made)
  note t = enter_opens_then_writes_params [OF fresh refl refl,
      where M = sample_components and st = new_document]
  then show ?thesis
    by (simp add: sample_section_made new_document_fields sample_components_def)
qed

text \<open>
  Claim C9. The container element is created lazily and at most once: the constructor
  leaves \<^verbatim>\<open>toplevel\<close> unset, \<^verbatim>\<open>_create_element\<close> and \<^verbatim>\<open>__enter__\<close> set it, and running
  \<^verbatim>\<open>_create_element\<close> again changes neither the section nor the document (a section
  whose element exists is returned as it is).
\<close>

theorem create_element_lazy_idempotent:
  "toplevel (DocumentSection_init M tag sargs kwargs) = None
   \<and> toplevel (fst (create_element M sec st)) \<noteq> None
   \<and> toplevel (fst (DocumentSection_enter M sec st)) \<noteq> None
   \<and> create_element M (fst (create_element M sec st)) (snd (create_element M sec st))
       = create_element M sec st
   \<and> (\<forall>el. toplevel sec = Some el \<longrightarrow> create_element M sec st = (sec, st))"
proof -
  have "create_element M (fst (create_element M sec st)) (snd (create_element M sec st))
       = create_element M sec st"
  proof (cases "toplevel sec")
    case None
    then show ?thesis by (simp add: create_element_fresh create_element_present)
  next
    case (Some el)
    then show ?thesis by (simp add: create_element_present)
  qed
  then show ?thesis
    by (simp add: init_toplevel create_element_sets_toplevel enter_sets_toplevel
        create_element_present)
qed

theorem create_element_lazy_idempotent_witness:
  "create_element sample_components
     (sample_section\<lparr>toplevel := Some \<lparr>tag_name = ''AnalysisData'', attrs = Map.empty\<rparr>\<rparr>)
     new_document =
   (sample_section\<lparr>toplevel := Some \<lparr>tag_name = ''AnalysisData'', attrs = Map.empty\<rparr>\<rparr>,
    new_document)
   \<and> create_element sample_components
        (fst (create_element sample_components sample_section new_document))
        (snd (create_element sample_components sample_section new_document)) =
      create_element sample_components sample_section new_document"
  using create_element_lazy_idempotent [where M = sample_components and st = new_document
      and sec = "sample_section\<lparr>toplevel := Some \<lparr>tag_name = ''AnalysisData'', attrs = Map.empty\<rparr>\<rparr>"]
    create_element_lazy_idempotent [where M = sample_components and st = new_document
      and sec = sample_section]
  by simp

lemma exit_entered:
  "context_manager sec = Some el \<Longrightarrow>
   DocumentSection_exit sec st = (Inr (), st\<lparr>stream := stream st @ [CloseElement el, Flush]\<rparr>)"
  by (simp add: DocumentSection_exit_def flush_def emit_def)

lemma enter_context_manager:
  "context_manager (fst (DocumentSection_enter M sec st)) = toplevel (fst (create_element M sec st))"
  using create_element_sets_toplevel [of M sec st]
  by (auto simp: DocumentSection_enter_def Let_def split: prod.split option.split)

lemma enter_context_manager_set: "context_manager (fst (DocumentSection_enter M sec st)) \<noteq> None"
  by (simp add: enter_context_manager create_element_sets_toplevel)

text \<open>
  Claim C3. Leaving an entered section closes its container element and then flushes
  the stream. In a \<^verbatim>\<open>with\<close> statement this happens whatever the body does: the two
  events follow the body's output when the body returns and when it raises, and the
  body's result, an exception included, is the result of the statement.
\<close>

theorem exit_closes_then_flushes:
  "(\<forall>el. context_manager sec = Some el \<longrightarrow>
      DocumentSection_exit sec st2 =
        (Inr (), st2\<lparr>stream := stream st2 @ [CloseElement el, Flush]\<rparr>))
   \<and> (\<exists>el. context_manager (fst (DocumentSection_enter M sec st)) = Some el
        \<and> with_statement (DocumentSection_enter M) DocumentSection_exit sec body st =
            (fst (body (snd (DocumentSection_enter M sec st))),
             (snd (body (snd (DocumentSection_enter M sec st))))
               \<lparr>stream := stream (snd (body (snd (DocumentSection_enter M sec st))))
                   @ [CloseElement el, Flush]\<rparr>))"
proof -
  obtain el where el: "context_manager (fst (DocumentSection_enter M sec st)) = Some el"
    using enter_context_manager_set [of M sec st] by auto
  have "with_statement (DocumentSection_enter M) DocumentSection_exit sec body st =
            (fst (body (snd (DocumentSection_enter M sec st))),
             (snd (body (snd (DocumentSection_enter M sec st))))
               \<lparr>stream := stream (snd (body (snd (DocumentSection_enter M sec st))))
                   @ [CloseElement el, Flush]\<rparr>)"
    using el by (simp add: with_statement_def case_prod_beta exit_entered)
  with el show ?thesis by (auto simp: exit_entered)
qed


lemma inputs_section_made:
  "InputsSection M =
     \<lparr>section_name = ''Inputs'', section_args = [''xmlns'' \<mapsto> xmlns M],
      params = prepare_params M (VList []), toplevel = None, context_manager = None\<rparr>"
  by (simp add: InputsSection_def DocumentSection_init_def dict_pop_def)

theorem exit_closes_then_flushes_witness:
  "with_statement (DocumentSection_enter sample_components) DocumentSection_exit
     (InputsSection sample_components) failing_body new_document =
   (Inl TypeError,
    new_document\<lparr>stream :=
      [OpenElement \<lparr>tag_name = ''Inputs'', attrs = [''xmlns'' \<mapsto> xmlns sample_components]\<rparr> False,
       Write (VStr ''child''),
       CloseElement \<lparr>tag_name = ''Inputs'', attrs = [''xmlns'' \<mapsto> xmlns sample_components]\<rparr>,
       Flush]\<rparr>)"
proof -
  let ?el = "\<lparr>tag_name = ''Inputs'', attrs = [''xmlns'' \<mapsto> xmlns sample_components]\<rparr>"
  have params: "prepare_params sample_components (VList []) = []"
    by (simp add: sample_components_def sequence_of_def)
  have entered: "DocumentSection_enter sample_components (InputsSection sample_components)
      new_document =
      ((InputsSection sample_components)\<lparr>toplevel := Some ?el, context_manager := Some ?el\<rparr>,
       new_document\<lparr>stream := [OpenElement ?el False]\<rparr>)"
    by (simp add: enter_fresh inputs_section_made params new_document_fields)
  from exit_closes_then_flushes [where sec = "InputsSection sample_components"
      and M = sample_components and body = failing_body and st = new_document]
  obtain el where
    el: "context_manager (fst (DocumentSection_enter sample_components
           (InputsSection sample_components) new_document)) = Some el"
    and run: "with_statement (DocumentSection_enter sample_components) DocumentSection_exit
        (InputsSection sample_components) failing_body new_document =
      (fst (failing_body (snd (DocumentSection_enter sample_components
              (InputsSection sample_components) new_document))),
       (snd (failing_body (snd (DocumentSection_enter sample_components
              (InputsSection sample_components) new_document))))
       \<lparr>stream := stream (snd (failing_body (snd (DocumentSection_enter sample_components
              (InputsSection sample_components) new_document)))) @ [CloseElement el, Flush]\<rparr>)"
    by blast
  from el have "el = ?el" by (simp add: entered)
  with run show ?thesis
    by (simp add: entered failing_body_def write_object_def emit_def)
qed

text \<open>
  Claim C8. \<^verbatim>\<open>spectrum_identification_list\<close> builds a default fragmentation table when
  \<^verbatim>\<open>measures\<close> is \<^verbatim>\<open>None\<close>, and entering the section writes the table right after the
  open tag and the queued parameters, before control returns to the caller. The table
  is a component object, hence true in \<^verbatim>\<open>if self.fragmentation_table:\<close>.
\<close>

lemma spectrum_identification_list_made:
  "spectrum_identification_list M i m =
     \<lparr>section_name = ''SpectrumIdentificationList'', section_args = [''id'' \<mapsto> i],
      params = prepare_params M (VList []), toplevel = None, context_manager = None,
      fragmentation_table = (if m = VNone then VCall ''FragmentationTable'' [] [] else m)\<rparr>"
  by (auto simp: spectrum_identification_list_def SpectrumIdentficationListSection_init_def
      DocumentSection_init_def dict_pop_def Let_def)

theorem fragmentation_table_first_child:
  assumes "m = VNone \<or> truthy m"
    and "table = (if m = VNone then VCall ''FragmentationTable'' [] [] else m)"
    and "el = \<lparr>tag_name = ''SpectrumIdentificationList'', attrs = [''id'' \<mapsto> i]\<rparr>"
    and "r = SpectrumIdentficationListSection_enter M (spectrum_identification_list M i m) st"
  shows "fragmentation_table (spectrum_identification_list M i m) = table
         \<and> stream (snd r) =
             stream st @ [OpenElement el True] @ map Write (prepare_params M (VList []))
               @ [Write table]
         \<and> context_manager (fst r) = Some el"
proof -
  have t: "truthy table" using assms(1,2) by auto
  show ?thesis
    using t assms(2,3,4)
    by (simp add: spectrum_identification_list_made SpectrumIdentficationListSection_enter_def
        enter_fresh write_object_def emit_def store_def)
qed

theorem fragmentation_table_first_child_witness:
  "stream (snd (SpectrumIdentficationListSection_enter sample_components
      (spectrum_identification_list sample_components (VStr ''SIL_1'') VNone) new_document)) =
     [OpenElement
        \<lparr>tag_name = ''SpectrumIdentificationList'', attrs = [''id'' \<mapsto> VStr ''SIL_1'']\<rparr> True,
      Write (VCall ''FragmentationTable'' [] [])]"
proof -
  have "VNone = VNone \<or> truthy VNone" by simp
  note t = fragmentation_table_first_child [OF this refl refl refl,
      where M = sample_components and i = "VStr ''SIL_1''" and st = new_document]
  then show ?thesis
    by (simp add: new_document_fields sample_components_def sequence_of_def)
qed

section \<open>The protein count\<close>

lemma protein_detection_list_init:
  "DocumentSection_init M ''ProteinDetectionList'' None
     (kwargs(''id'' \<mapsto> i, ''count'' \<mapsto> count, ''params'' \<mapsto> ps)) =
   \<lparr>section_name = ''ProteinDetectionList'',
    section_args = (kwargs(''id'' \<mapsto> i, ''count'' \<mapsto> count))(''params'' := None),
    params = prepare_params M ps, toplevel = None, context_manager = None\<rparr>"
  by (simp add: DocumentSection_init_def dict_pop_def fun_upd_twist)

text \<open>
  Claim C2. When the protein count is given both as the \<^verbatim>\<open>count\<close> argument and as a
  parameter with accession \<^verbatim>\<open>MS:1002404\<close>, the constructor raises \<^verbatim>\<open>ValueError\<close>. The
  document is as it was: nothing is written, no warning is issued, and a
  \<^verbatim>\<open>with\<close> statement over the section neither enters it nor runs its body.
\<close>

theorem count_conflict_is_fatal:
  assumes "count \<noteq> VNone"
    and "p \<in> set (prepare_params M ps)"
    and "accession M p = VStr ''MS:1002404''"
  shows "protein_detection_list M i count ps kwargs st =
           (Inl (ValueError count_conflict_message), st)
         \<and> with_new (DocumentSection_enter M) DocumentSection_exit
             (protein_detection_list M i count ps kwargs st) body =
           (Inl (ValueError count_conflict_message), st)"
proof -
  have has: "has_count_param M (prepare_params M ps)"
    using assms(2,3) by (auto simp: has_count_param_def list_ex_iff)
  have "protein_detection_list M i count ps kwargs st =
           (Inl (ValueError count_conflict_message), st)"
    using assms(1) has
    by (simp add: protein_detection_list_def ProteinDetectionListSection_init_def
        protein_detection_list_init dict_pop_def)
  then show ?thesis by (simp add: with_new_def)
qed

theorem count_conflict_is_fatal_witness:
  "protein_detection_list sample_components (VStr ''PDL_1'') (VInt 10) (VList [count_param])
     Map.empty new_document =
     (Inl (ValueError count_conflict_message), new_document)
   \<and> with_new (DocumentSection_enter sample_components) DocumentSection_exit
       (protein_detection_list sample_components (VStr ''PDL_1'') (VInt 10) (VList [count_param])
          Map.empty new_document) failing_body =
     (Inl (ValueError count_conflict_message), new_document)"
proof -
  have given: "VInt 10 \<noteq> VNone" by simp
  have queued: "count_param \<in> set (prepare_params sample_components (VList [count_param]))"
    by (simp add: sample_components_def sequence_of_def)
  have carries: "accession sample_components count_param = VStr ''MS:1002404''"
    by (simp add: sample_components_def keyword_of_def count_param_def)
  show ?thesis
    using count_conflict_is_fatal [OF given queued carries, where i = "VStr ''PDL_1''"
        and kwargs = Map.empty and st = new_document and body = failing_body]
    by (simp add: with_new_def)
qed

text \<open>
  Claim C6. When neither the \<^verbatim>\<open>count\<close> argument nor a parameter with accession
  \<^verbatim>\<open>MS:1002404\<close> is given, the constructor issues one warning and returns the section:
  its parameters are the prepared ones, with no count among them, and \<^verbatim>\<open>count\<close> is
  not an attribute of its element. Entering the section writes the open tag and the
  parameters, and a \<^verbatim>\<open>with\<close> statement over it runs as for any section.
\<close>

theorem missing_count_warns_and_proceeds:
  assumes "\<not> has_count_param M (prepare_params M ps)"
    and "args = (kwargs(''id'' \<mapsto> i))(''count'' := None, ''params'' := None)"
    and "sec = \<lparr>section_name = ''ProteinDetectionList'', section_args = args,
                params = prepare_params M ps, toplevel = None, context_manager = None\<rparr>"
  shows "protein_detection_list M i VNone ps kwargs st = (Inr sec, warn count_missing_message st)
         \<and> warnings (warn count_missing_message st) = warnings st @ [count_missing_message]
         \<and> stream (warn count_missing_message st) = stream st
         \<and> stream (snd (DocumentSection_enter M sec (warn count_missing_message st))) =
             stream st @ [OpenElement \<lparr>tag_name = ''ProteinDetectionList'', attrs = args\<rparr> True]
               @ map Write (prepare_params M ps)
         \<and> with_new (DocumentSection_enter M) DocumentSection_exit
             (protein_detection_list M i VNone ps kwargs st) body =
           with_statement (DocumentSection_enter M) DocumentSection_exit sec body
             (warn count_missing_message st)"
proof -
  have made: "protein_detection_list M i VNone ps kwargs st =
      (Inr sec, warn count_missing_message st)"
    using assms
    by (simp add: protein_detection_list_def ProteinDetectionListSection_init_def
        protein_detection_list_init dict_pop_def fun_upd_twist)
  have "toplevel sec = None" "params sec = prepare_params M ps" "section_name sec = ''ProteinDetectionList''"
    "section_args sec = args" "''id'' \<in> dom args"
    using assms(2,3) by simp_all
  then have "stream (snd (DocumentSection_enter M sec (warn count_missing_message st))) =
             stream st @ [OpenElement \<lparr>tag_name = ''ProteinDetectionList'', attrs = args\<rparr> True]
               @ map Write (prepare_params M ps)"
    by (simp add: enter_fresh warn_def store_def split: option.split)
  with made show ?thesis by (simp add: with_new_def warn_def)
qed


theorem missing_count_warns_and_proceeds_witness:
  "protein_detection_list sample_components (VStr ''PDL_1'') VNone VNone Map.empty new_document =
     (Inr \<lparr>section_name = ''ProteinDetectionList'',
           section_args = [''id'' \<mapsto> VStr ''PDL_1''],
           params = [], toplevel = None, context_manager = None\<rparr>,
      new_document\<lparr>warnings := [count_missing_message]\<rparr>)"
proof -
  have none: "prepare_params sample_components VNone = []"
    by (simp add: sample_components_def sequence_of_def)
  have absent: "\<not> has_count_param sample_components (prepare_params sample_components VNone)"
    by (simp add: none has_count_param_def)
  have args: "(Map.empty(''id'' \<mapsto> VStr ''PDL_1''))(''count'' := None, ''params'' := None)
      = [''id'' \<mapsto> VStr ''PDL_1'']"
    by auto
  note t = missing_count_warns_and_proceeds [OF absent refl refl,
      where i = "VStr ''PDL_1''" and kwargs = Map.empty and st = new_document]
  then show ?thesis
    by (simp add: none args warn_def new_document_fields)
qed

section \<open>Registration\<close>

lemma register_mapped:
  "doc_context st c key = Some v \<Longrightarrow> register c key st = (v, st)"
  by (simp add: register_def)

lemma register_explicit:
  "doc_context st c key = None \<Longrightarrow> key \<noteq> VAuto \<Longrightarrow>
   register c key st = (key, store c key key st)"
  by (simp add: register_def)

lemma register_auto:
  "doc_context st c VAuto = None \<Longrightarrow>
   register c VAuto st =
     (VSynth c (counter st c),
      store c (VSynth c (counter st c)) (VSynth c (counter st c))
        (st\<lparr>counter := (counter st)(c := Suc (counter st c))\<rparr>))"
  by (simp add: register_def Let_def)

lemma store_context:
  "doc_context (store c k v st) = (doc_context st)(c := (doc_context st c)(k \<mapsto> v))"
  by (simp add: store_def)

lemma store_counter: "counter (store c k v st) = counter st"
  by (simp add: store_def)

lemma register_again:
  assumes "key \<noteq> VAuto"
  shows "register c key (snd (register c key st)) = register c key st"
proof (cases "doc_context st c key")
  case None
  then show ?thesis using assms by (simp add: register_explicit register_mapped store_context)
next
  case (Some v)
  then show ?thesis by (simp add: register_mapped)
qed

lemma counter_ahead_new: "counter_ahead new_document c"
  by (simp add: counter_ahead_def new_document_def assigned_def)

lemma auto_fresh:
  assumes "counter_ahead st c"
  shows "fst (register c VAuto st) = VSynth c (counter st c)"
    and "fst (register c VAuto st) \<notin> assigned st c"
    and "fst (register c VAuto st) \<notin> dom (doc_context st c)"
    and "fst (register c VAuto st) \<in> assigned (snd (register c VAuto st)) c"
proof -
  have none: "doc_context st c VAuto = None" using assms by (simp add: counter_ahead_def)
  show id: "fst (register c VAuto st) = VSynth c (counter st c)"
    by (simp add: register_auto [OF none])
  have "\<not> counter st c < counter st c" by simp
  then have "VSynth c (counter st c) \<notin> dom (doc_context st c) \<union> assigned st c"
    using assms unfolding counter_ahead_def by blast
  then show "fst (register c VAuto st) \<notin> assigned st c"
    and "fst (register c VAuto st) \<notin> dom (doc_context st c)"
    using id by simp_all
  show "fst (register c VAuto st) \<in> assigned (snd (register c VAuto st)) c"
    by (simp add: register_auto [OF none] assigned_def store_context ran_def) blast
qed

lemma counter_ahead_store:
  assumes "counter_ahead st c" and "k \<noteq> VAuto"
    and "\<And>n. k = VSynth c n \<or> v = VSynth c n \<Longrightarrow> n < counter st c"
  shows "counter_ahead (store c' k v st) c"
proof (cases "c' = c")
  case False
  then show ?thesis using assms(1)
    by (simp add: counter_ahead_def assigned_def store_context store_counter)
next
  case True
  have ran_sub: "ran ((doc_context st c)(k \<mapsto> v)) \<subseteq> insert v (ran (doc_context st c))"
    by (auto simp: ran_def split: if_splits)
  show ?thesis
    unfolding counter_ahead_def
  proof (intro conjI allI impI)
    show "doc_context (store c' k v st) c VAuto = None"
      using assms(1,2) True by (simp add: counter_ahead_def store_context)
  next
    fix n
    assume "VSynth c n \<in> dom (doc_context (store c' k v st) c) \<union> assigned (store c' k v st) c"
    then have "VSynth c n = k \<or> VSynth c n = v
        \<or> VSynth c n \<in> dom (doc_context st c) \<union> assigned st c"
      using True ran_sub by (auto simp: store_context assigned_def)
    then have "n < counter st c"
      using assms(1,3) unfolding counter_ahead_def by metis
    then show "n < counter (store c' k v st) c" by (simp add: store_counter)
  qed
qed

lemma counter_ahead_bump:
  "counter_ahead st c \<Longrightarrow>
   counter_ahead (st\<lparr>counter := (counter st)(c' := Suc (counter st c'))\<rparr>) c"
  by (auto simp: counter_ahead_def assigned_def less_Suc_eq)

lemma counter_ahead_register:
  assumes "counter_ahead st c" and "\<And>n. key \<noteq> VSynth c n"
  shows "counter_ahead (snd (register c' key st)) c"
proof (cases "doc_context st c' key")
  case (Some v)
  then show ?thesis using assms(1) by (simp add: register_mapped)
next
  case None
  show ?thesis
  proof (cases "key = VAuto")
    case False
    have "counter_ahead (store c' key key st) c"
      using assms False by (intro counter_ahead_store) auto
    then show ?thesis using None False by (simp add: register_explicit)
  next
    case True
    let ?st1 = "st\<lparr>counter := (counter st)(c' := Suc (counter st c'))\<rparr>"
    have "counter_ahead ?st1 c" using assms(1) by (rule counter_ahead_bump)
    moreover have "\<And>n. VSynth c' (counter st c') = VSynth c n \<Longrightarrow> n < counter ?st1 c"
      by auto
    ultimately have "counter_ahead (store c' (VSynth c' (counter st c')) (VSynth c' (counter st c')) ?st1) c"
      by (intro counter_ahead_store) auto
    then show ?thesis using None True by (simp add: register_auto)
  qed
qed

text \<open>
  Claim C4. Registering the same key twice under a category returns the same
  identifier both times, and the second call leaves the registry as it is. Where the
  counter invariant holds (it holds in a new document and every registration of a
  caller's key or of the sentinel keeps it), registering the sentinel returns an
  identifier that was not assigned in the category before and is assigned afterwards,
  the next such call returns a different one, and the invariant holds again.
\<close>

theorem register_idempotent_and_fresh:
  "(key \<noteq> VAuto \<longrightarrow>
      fst (register c key (snd (register c key st))) = fst (register c key st)
      \<and> snd (register c key (snd (register c key st))) = snd (register c key st))
   \<and> (counter_ahead st c \<longrightarrow>
        fst (register c VAuto st) \<notin> assigned st c
        \<and> fst (register c VAuto st) \<in> assigned (snd (register c VAuto st)) c
        \<and> fst (register c VAuto (snd (register c VAuto st))) \<noteq> fst (register c VAuto st)
        \<and> counter_ahead (snd (register c VAuto st)) c)
   \<and> (counter_ahead st c \<and> (\<forall>n. key \<noteq> VSynth c n) \<longrightarrow>
        counter_ahead (snd (register c' key st)) c)"
proof (intro conjI impI)
  assume "key \<noteq> VAuto"
  then show "fst (register c key (snd (register c key st))) = fst (register c key st)"
    and "snd (register c key (snd (register c key st))) = snd (register c key st)"
    by (simp_all add: register_again)
next
  assume inv: "counter_ahead st c"
  show "fst (register c VAuto st) \<notin> assigned st c" using inv by (rule auto_fresh)
  show in1: "fst (register c VAuto st) \<in> assigned (snd (register c VAuto st)) c"
    using inv by (rule auto_fresh)
  show inv1: "counter_ahead (snd (register c VAuto st)) c"
    using inv by (intro counter_ahead_register) auto
  have "fst (register c VAuto (snd (register c VAuto st)))
          \<notin> assigned (snd (register c VAuto st)) c"
    using inv1 by (rule auto_fresh)
  with in1 show "fst (register c VAuto (snd (register c VAuto st))) \<noteq> fst (register c VAuto st)"
    by auto
next
  assume "counter_ahead st c \<and> (\<forall>n. key \<noteq> VSynth c n)"
  then show "counter_ahead (snd (register c' key st)) c"
    by (intro counter_ahead_register) auto
qed

theorem register_idempotent_and_fresh_witness:
  "fst (register ''Person'' (VStr ''P1'') (snd (register ''Person'' (VStr ''P1'') new_document)))
     = fst (register ''Person'' (VStr ''P1'') new_document)
   \<and> fst (register ''Person'' VAuto new_document) \<notin> assigned new_document ''Person''
   \<and> fst (register ''Person'' VAuto (snd (register ''Person'' VAuto new_document)))
       \<noteq> fst (register ''Person'' VAuto new_document)
   \<and> counter_ahead (snd (register ''Person'' (VStr ''P1'') new_document)) ''Person''"
  using register_idempotent_and_fresh [where key = "VStr ''P1''" and c = "''Person''"
      and c' = "''Person''" and st = new_document]
    counter_ahead_new [of "''Person''"]
  by simp

section \<open>Providence\<close>

lemma providence_default:
  assumes "ensure_iterable M owner = []" and "ensure_iterable M organization = []"
  shows "providence M software owner organization st =
     write_object
       (VCall ''AuditCollection''
          [VList [VCall ''Person'' [] [(''affiliation'', DEFAULT_ORGANIZATION_ID M)]],
           VList [VCall ''Organization'' [] [(''id'', DEFAULT_ORGANIZATION_ID M)]]] [])
       (write_object
          (VCall ''Provider'' []
             [(''contact'',
               component_id M (VCall ''Person'' [] [(''affiliation'', DEFAULT_ORGANIZATION_ID M)]))])
          (write_object
             (VCall ''GenericCollection''
                [VStr ''AnalysisSoftwareList'',
                 VList (map (\<lambda>s. ensure M ''AnalysisSoftware'' (or_empty_dict s))
                          (ensure_iterable M software))] [])
             (snd (register ''Organization'' (DEFAULT_ORGANIZATION_ID M) st))))"
  using assms by (simp add: providence_def Let_def case_prod_beta)

lemma providence_supplied:
  assumes "ensure_iterable M owner \<noteq> [] \<or> ensure_iterable M organization \<noteq> []"
  shows "providence M software owner organization st =
     write_object
       (VCall ''AuditCollection''
          [VList (map (\<lambda>x. ensure M ''Person'' (or_empty_dict x)) (ensure_iterable M owner)),
           VList (map (\<lambda>x. ensure M ''Organization'' (or_empty_dict x))
                    (ensure_iterable M organization))] [])
       (write_object
          (VCall ''Provider'' []
             [(''contact'',
               case ensure_iterable M owner of
                 first # others \<Rightarrow> component_id M (ensure M ''Person'' (or_empty_dict first))
               | [] \<Rightarrow> VNone)])
          (write_object
             (VCall ''GenericCollection''
                [VStr ''AnalysisSoftwareList'',
                 VList (map (\<lambda>s. ensure M ''AnalysisSoftware'' (or_empty_dict s))
                          (ensure_iterable M software))] [])
             st))"
  using assms by (auto simp: providence_def Let_def split: list.split)

lemma emit_append: "emit ev st = st\<lparr>stream := stream st @ [ev]\<rparr>"
  by (simp add: emit_def)

lemma register_stream: "stream (snd (register c key st)) = stream st"
  by (simp add: register_def store_def Let_def split: option.split)

lemma register_resolves:
  assumes "key \<noteq> VAuto"
  shows "resolve c key (snd (register c key st)) = Inr (fst (register c key st))"
proof (cases "doc_context st c key")
  case None
  then show ?thesis using assms by (simp add: register_explicit resolve_def store_context)
next
  case (Some v)
  then show ?thesis by (simp add: register_mapped resolve_def)
qed

lemma sample_none_empty: "ensure_iterable sample_components VNone = []"
  by (simp add: sample_components_def sequence_of_def)

lemma sample_default: "VStr ''ORG_DOC_OWNER'' = DEFAULT_ORGANIZATION_ID sample_components"
  by (simp add: sample_components_def)

lemma sample_id_of_default_person:
  "component_id sample_components (VCall ''Person'' [] [(''affiliation'', d)]) = VNone"
  by (simp add: sample_components_def keyword_of_def)

text \<open>
  Claim C5. With no owner and no organization, \<^verbatim>\<open>providence\<close> registers the fixed
  default organization identifier, once, and writes one person affiliated to that
  identifier and one organization with that identifier: the contact of the provider is
  that person, and the audit collection holds the pair. Afterwards the default
  identifier resolves, under the category of organizations, to the identifier the
  registration returned; in a document where it was not registered before, that is
  the default identifier itself and it is the one entry added to the identity map.
\<close>

theorem providence_default_pair:
  assumes "ensure_iterable M owner = []" and "ensure_iterable M organization = []"
    and "d = DEFAULT_ORGANIZATION_ID M" and "d \<noteq> VAuto"
    and "person = VCall ''Person'' [] [(''affiliation'', d)]"
    and "org = VCall ''Organization'' [] [(''id'', d)]"
    and "st' = providence M software owner organization st"
  shows "stream st' =
           stream st @
             [Write (VCall ''GenericCollection''
                [VStr ''AnalysisSoftwareList'',
                 VList (map (\<lambda>s. ensure M ''AnalysisSoftware'' (or_empty_dict s))
                          (ensure_iterable M software))] []),
              Write (VCall ''Provider'' [] [(''contact'', component_id M person)]),
              Write (VCall ''AuditCollection'' [VList [person], VList [org]] [])]
         \<and> doc_context st' = doc_context (snd (register ''Organization'' d st))
         \<and> resolve ''Organization'' d st' = Inr (fst (register ''Organization'' d st))
         \<and> (doc_context st ''Organization'' d = None \<longrightarrow>
              resolve ''Organization'' d st' = Inr d
              \<and> doc_context st' =
                  (doc_context st)(''Organization'' := (doc_context st ''Organization'')(d \<mapsto> d)))
         \<and> counter st' = counter st"
proof -
  let ?st1 = "snd (register ''Organization'' d st)"
  have st': "st' = ?st1\<lparr>stream := stream st @
             [Write (VCall ''GenericCollection''
                [VStr ''AnalysisSoftwareList'',
                 VList (map (\<lambda>s. ensure M ''AnalysisSoftware'' (or_empty_dict s))
                          (ensure_iterable M software))] []),
              Write (VCall ''Provider'' [] [(''contact'', component_id M person)]),
              Write (VCall ''AuditCollection'' [VList [person], VList [org]] [])]\<rparr>"
    using assms(1,2,3,5,6,7)
    by (simp add: providence_default write_object_def emit_append register_stream)
  have res: "resolve ''Organization'' d ?st1 = Inr (fst (register ''Organization'' d st))"
    using assms(4) by (rule register_resolves)
  have cnt: "counter ?st1 = counter st"
    using assms(4) by (simp add: register_def store_def split: option.split)
  have fresh: "doc_context st ''Organization'' d = None \<Longrightarrow>
      fst (register ''Organization'' d st) = d
      \<and> doc_context ?st1 =
          (doc_context st)(''Organization'' := (doc_context st ''Organization'')(d \<mapsto> d))"
    using assms(4) by (simp add: register_explicit store_context)
  show ?thesis
    using res cnt fresh by (auto simp: st' resolve_def)
qed


theorem providence_default_pair_witness:
  "stream (providence sample_components VNone VNone VNone new_document) =
     [Write (VCall ''GenericCollection'' [VStr ''AnalysisSoftwareList'', VList []] []),
      Write (VCall ''Provider'' [] [(''contact'', VNone)]),
      Write (VCall ''AuditCollection''
        [VList [VCall ''Person'' [] [(''affiliation'', VStr ''ORG_DOC_OWNER'')]],
         VList [VCall ''Organization'' [] [(''id'', VStr ''ORG_DOC_OWNER'')]]] [])]
   \<and> resolve ''Organization'' (VStr ''ORG_DOC_OWNER'')
        (providence sample_components VNone VNone VNone new_document) = Inr (VStr ''ORG_DOC_OWNER'')
   \<and> doc_context (providence sample_components VNone VNone VNone new_document) ''Organization''
       = [VStr ''ORG_DOC_OWNER'' \<mapsto> VStr ''ORG_DOC_OWNER'']"
proof -
  have auto: "VStr ''ORG_DOC_OWNER'' \<noteq> VAuto" by simp
  note t = providence_default_pair [OF sample_none_empty sample_none_empty sample_default auto
      refl refl refl, of VNone new_document]
  then show ?thesis
    by (simp add: sample_none_empty sample_id_of_default_person new_document_fields
        register_def store_def)
qed

text \<open>
  Claim C10. The default pair is injected only when there is neither an owner nor an
  organization. With an owner, the contact of the provider is the identifier of the
  first owner; with organizations only, the contact is \<^verbatim>\<open>None\<close>. In both cases the
  audit collection holds what was supplied and the document changes in its stream
  only: nothing is registered, no default person or organization is built.
\<close>

theorem providence_default_only_when_both_empty:
  assumes "software1 = map (\<lambda>s. ensure M ''AnalysisSoftware'' (or_empty_dict s))
                         (ensure_iterable M software)"
    and "owner1 = map (\<lambda>x. ensure M ''Person'' (or_empty_dict x)) (ensure_iterable M owner)"
    and "organization1 = map (\<lambda>x. ensure M ''Organization'' (or_empty_dict x))
                            (ensure_iterable M organization)"
  shows "(\<forall>first others. owner1 = first # others \<longrightarrow>
            providence M software owner organization st =
              st\<lparr>stream := stream st @
                [Write (VCall ''GenericCollection'' [VStr ''AnalysisSoftwareList'', VList software1] []),
                 Write (VCall ''Provider'' [] [(''contact'', component_id M first)]),
                 Write (VCall ''AuditCollection'' [VList owner1, VList organization1] [])]\<rparr>)
         \<and> (owner1 = [] \<and> organization1 \<noteq> [] \<longrightarrow>
            providence M software owner organization st =
              st\<lparr>stream := stream st @
                [Write (VCall ''GenericCollection'' [VStr ''AnalysisSoftwareList'', VList software1] []),
                 Write (VCall ''Provider'' [] [(''contact'', VNone)]),
                 Write (VCall ''AuditCollection'' [VList [], VList organization1] [])]\<rparr>)
         \<and> (owner1 = [] \<and> organization1 = [] \<longrightarrow>
            providence M software owner organization st =
              (snd (register ''Organization'' (DEFAULT_ORGANIZATION_ID M) st))
              \<lparr>stream := stream st @
                [Write (VCall ''GenericCollection'' [VStr ''AnalysisSoftwareList'', VList software1] []),
                 Write (VCall ''Provider'' []
                   [(''contact'', component_id M
                       (VCall ''Person'' [] [(''affiliation'', DEFAULT_ORGANIZATION_ID M)]))]),
                 Write (VCall ''AuditCollection''
                   [VList [VCall ''Person'' [] [(''affiliation'', DEFAULT_ORGANIZATION_ID M)]],
                    VList [VCall ''Organization'' [] [(''id'', DEFAULT_ORGANIZATION_ID M)]]] [])]\<rparr>)"
proof (intro conjI allI impI)
  fix first others
  assume "owner1 = first # others"
  then show "providence M software owner organization st =
              st\<lparr>stream := stream st @
                [Write (VCall ''GenericCollection'' [VStr ''AnalysisSoftwareList'', VList software1] []),
                 Write (VCall ''Provider'' [] [(''contact'', component_id M first)]),
                 Write (VCall ''AuditCollection'' [VList owner1, VList organization1] [])]\<rparr>"
    using assms
    by (auto simp: providence_supplied write_object_def emit_append split: list.split)
next
  assume "owner1 = [] \<and> organization1 \<noteq> []"
  then show "providence M software owner organization st =
              st\<lparr>stream := stream st @
                [Write (VCall ''GenericCollection'' [VStr ''AnalysisSoftwareList'', VList software1] []),
                 Write (VCall ''Provider'' [] [(''contact'', VNone)]),
                 Write (VCall ''AuditCollection'' [VList [], VList organization1] [])]\<rparr>"
    using assms
    by (auto simp: providence_supplied write_object_def emit_append split: list.split)
next
  assume "owner1 = [] \<and> organization1 = []"
  then show "providence M software owner organization st =
              (snd (register ''Organization'' (DEFAULT_ORGANIZATION_ID M) st))
              \<lparr>stream := stream st @
                [Write (VCall ''GenericCollection'' [VStr ''AnalysisSoftwareList'', VList software1] []),
                 Write (VCall ''Provider'' []
                   [(''contact'', component_id M
                       (VCall ''Person'' [] [(''affiliation'', DEFAULT_ORGANIZATION_ID M)]))]),
                 Write (VCall ''AuditCollection''
                   [VList [VCall ''Person'' [] [(''affiliation'', DEFAULT_ORGANIZATION_ID M)]],
                    VList [VCall ''Organization'' [] [(''id'', DEFAULT_ORGANIZATION_ID M)]]] [])]\<rparr>"
    using assms
    by (simp add: providence_default write_object_def emit_append register_stream)
qed


theorem providence_default_only_when_both_empty_witness:
  "providence sample_components VNone (VDict [(''id'', VStr ''me'')]) VNone new_document =
     new_document\<lparr>stream :=
       [Write (VCall ''GenericCollection'' [VStr ''AnalysisSoftwareList'', VList []] []),
        Write (VCall ''Provider'' [] [(''contact'', VStr ''me'')]),
        Write (VCall ''AuditCollection''
          [VList [VCall ''Person'' [] [(''id'', VStr ''me'')]], VList []] [])]\<rparr>
   \<and> providence sample_components VNone VNone (VDict [(''id'', VStr ''lab'')]) new_document =
     new_document\<lparr>stream :=
       [Write (VCall ''GenericCollection'' [VStr ''AnalysisSoftwareList'', VList []] []),
        Write (VCall ''Provider'' [] [(''contact'', VNone)]),
        Write (VCall ''AuditCollection''
          [VList [], VList [VCall ''Organization'' [] [(''id'', VStr ''lab'')]]] [])]\<rparr>"
proof -
  have one: "ensure_iterable sample_components (VDict [(''id'', x)]) = [VDict [(''id'', x)]]" for x
    by (simp add: sample_components_def sequence_of_def)
  have built: "ensure sample_components c (or_empty_dict (VDict [(''id'', x)]))
      = VCall c [] [(''id'', x)]" for c x
    by (simp add: sample_components_def or_empty_dict_def)
  have ident: "component_id sample_components (VCall c [] [(''id'', x)]) = x" for c x
    by (simp add: sample_components_def keyword_of_def)
  note owner_only = providence_default_only_when_both_empty [OF refl refl refl,
      where M = sample_components and software = VNone and owner = "VDict [(''id'', VStr ''me'')]"
      and organization = VNone and st = new_document]
  note organization_only = providence_default_only_when_both_empty [OF refl refl refl,
      where M = sample_components and software = VNone and owner = VNone
      and organization = "VDict [(''id'', VStr ''lab'')]" and st = new_document]
  from owner_only organization_only show ?thesis
    by (simp add: one built ident sample_none_empty new_document_fields)
qed

end
